theory Spec2Isabelle
  imports Main "HOL-Library.Word" "HOL-Library.AList"
begin

section \<open>JavaScript values\<close>

text \<open>
  The storage engine of \<open>src/index.js\<close> receives a loosely typed options bag, so the
  model works on JavaScript values. Strings are byte strings (the UTF-8 form of the
  JavaScript string). Numbers are the integer-valued doubles and \<open>NaN\<close>; fractions and
  infinities are outside the model, and an integer prints in decimal whatever its
  size. A plain object is the list of its properties (name and value, the first entry
  of a name being the property), an array is the list of its elements, and a function
  value is an identity (resolved by the environment of a run) together with its source
  text, which is what string conversion prints.
\<close>

datatype jsval =
    JUndefined
  | JNull
  | JBool bool
  | JNum int
  | JNaN
  | JStr string
  | JArr "jsval list"
  | JObj "(string \<times> jsval) list"
  | JFun nat string

type_synonym obj = "(string \<times> jsval) list"

text \<open>Truthiness, as tested by \<open>if (v)\<close>, \<open>!v\<close> and \<open>a || b\<close>.\<close>

fun truthy :: "jsval \<Rightarrow> bool" where
  "truthy JUndefined = False"
| "truthy JNull = False"
| "truthy (JBool b) = b"
| "truthy (JNum n) = (n \<noteq> 0)"
| "truthy JNaN = False"
| "truthy (JStr s) = (s \<noteq> [])"
| "truthy (JArr xs) = True"
| "truthy (JObj m) = True"
| "truthy (JFun i src) = True"

definition js_or :: "jsval \<Rightarrow> jsval \<Rightarrow> jsval" where
  "js_or a b = (if truthy a then a else b)"

fun typeof :: "jsval \<Rightarrow> string" where
  "typeof JUndefined = ''undefined''"
| "typeof JNull = ''object''"
| "typeof (JBool b) = ''boolean''"
| "typeof (JNum n) = ''number''"
| "typeof JNaN = ''number''"
| "typeof (JStr s) = ''string''"
| "typeof (JArr xs) = ''object''"
| "typeof (JObj m) = ''object''"
| "typeof (JFun i src) = ''function''"

text \<open>Property read \<open>o.k\<close> on an object: an absent property reads as \<open>undefined\<close>.\<close>

definition get :: "obj \<Rightarrow> string \<Rightarrow> jsval" where
  "get m k = (case map_of m k of Some v \<Rightarrow> v | None \<Rightarrow> JUndefined)"

text \<open>
  Property read \<open>v.k\<close> on a value. The source reads sub-properties (\<open>width\<close>, \<open>height\<close>,
  \<open>option\<close>, \<open>type\<close>) only of values it has tested to be truthy, so the receiver is never
  \<open>undefined\<close> or \<open>null\<close>; none of these names is a property of a primitive, an array
  or a function.
\<close>

fun property :: "jsval \<Rightarrow> string \<Rightarrow> jsval" where
  "property (JObj m) k = get m k"
| "property v k = JUndefined"

subsection \<open>String conversion\<close>

definition digit_char :: "nat \<Rightarrow> char" where
  "digit_char d = char_of (48 + d)"

fun dec_nat :: "nat \<Rightarrow> string" where
  "dec_nat n = (if n < 10 then [digit_char n] else dec_nat (n div 10) @ [digit_char (n mod 10)])"

declare dec_nat.simps [simp del]

definition dec_int :: "int \<Rightarrow> string" where
  "dec_int n = (if n < 0 then ''-'' @ dec_nat (nat (- n)) else dec_nat (nat n))"

fun join_comma :: "string list \<Rightarrow> string" where
  "join_comma [] = []"
| "join_comma [s] = s"
| "join_comma (s # t # ss) = s @ '','' @ join_comma (t # ss)"

text \<open>
  \<open>ToString\<close>, as a template literal applies it to \<open>${v}\<close>. An array joins its elements
  with commas, printing \<open>undefined\<close> and \<open>null\<close> elements as the empty string; a plain
  object prints as \<open>[object Object]\<close>.
\<close>

fun to_string :: "jsval \<Rightarrow> string" where
  "to_string JUndefined = ''undefined''"
| "to_string JNull = ''null''"
| "to_string (JBool b) = (if b then ''true'' else ''false'')"
| "to_string (JNum n) = dec_int n"
| "to_string JNaN = ''NaN''"
| "to_string (JStr s) = s"
| "to_string (JArr xs) =
     join_comma (map (\<lambda>x. case x of JUndefined \<Rightarrow> [] | JNull \<Rightarrow> [] | _ \<Rightarrow> to_string x) xs)"
| "to_string (JObj m) = ''[object Object]''"
| "to_string (JFun i src) = src"

subsection \<open>Exceptions and built-in operations\<close>

text \<open>A thrown exception ends the synchronous code that raised it.\<close>

datatype exn = Error string | TypeError string

text \<open>
  \<open>Object.prototype.hasOwnProperty.call(v, k)\<close>. It throws on \<open>undefined\<close> and \<open>null\<close>.
  The source calls it on the gravity table and on a format value whose \<open>typeof\<close> is
  \<open>object\<close>, asking for \<open>type\<close> and \<open>option\<close>; an array owns its indices and \<open>length\<close>.
\<close>

fun hasOwnProperty :: "jsval \<Rightarrow> string \<Rightarrow> exn + bool" where
  "hasOwnProperty JUndefined k = Inl (TypeError ''Cannot convert undefined or null to object'')"
| "hasOwnProperty JNull k = Inl (TypeError ''Cannot convert undefined or null to object'')"
| "hasOwnProperty (JObj m) k = Inr (map_of m k \<noteq> None)"
| "hasOwnProperty (JArr xs) k = Inr (k = ''length'' \<or> k \<in> set (map dec_nat [0..<length xs]))"
| "hasOwnProperty v k = Inr False"

text \<open>
  \<open>parseInt(v, 10)\<close>: string conversion, leading (ASCII) white space dropped, an
  optional sign, then the longest run of decimal digits; \<open>NaN\<close> when there is none.
\<close>

definition is_space :: "char \<Rightarrow> bool" where
  "is_space c = (of_char c \<in> {9, 10, 11, 12, 13, 32 :: nat})"

definition is_digit :: "char \<Rightarrow> bool" where
  "is_digit c = (48 \<le> (of_char c :: nat) \<and> (of_char c :: nat) \<le> 57)"

definition digits_value :: "string \<Rightarrow> nat" where
  "digits_value z = foldl (\<lambda>a c. 10 * a + (of_char c - 48)) 0 z"

definition parseInt10 :: "jsval \<Rightarrow> jsval" where
  "parseInt10 v =
     (let s = dropWhile is_space (to_string v);
          negative = (s \<noteq> [] \<and> hd s = CHR ''-'');
          r = (if s \<noteq> [] \<and> (hd s = CHR ''-'' \<or> hd s = CHR ''+'') then tl s else s);
          z = takeWhile is_digit r
      in if z = [] then JNaN
         else JNum ((if negative then - 1 else 1) * int (digits_value z)))"

text \<open>
  \<open>includes(arr, v)\<close> of the package array-includes compares by SameValueZero. On
  primitives that is equality of values (\<open>NaN\<close> equals itself, and the two zeros are one
  integer here); an array, object or function is equal only to itself by reference,
  and the array literal of the source holds numbers only.
\<close>

definition same_value_zero :: "jsval \<Rightarrow> jsval \<Rightarrow> bool" where
  "same_value_zero a b =
     (case a of
        JUndefined \<Rightarrow> b = JUndefined
      | JNull \<Rightarrow> b = JNull
      | JBool x \<Rightarrow> b = JBool x
      | JNum x \<Rightarrow> b = JNum x
      | JNaN \<Rightarrow> b = JNaN
      | JStr x \<Rightarrow> b = JStr x
      | _ \<Rightarrow> False)"

definition array_includes :: "jsval list \<Rightarrow> jsval \<Rightarrow> bool" where
  "array_includes arr v = list_ex (\<lambda>x. same_value_zero x v) arr"

section \<open>The transform pipeline\<close>

text \<open>
  The image library is a black box: \<open>sharp()\<close> is a builder and every method call on it
  returns the builder with one more operation queued. The model keeps the queue: the
  list of the calls made, in order, each with the arguments it was given. What the
  library makes of the arguments is its own matter and not part of the model.
\<close>

datatype stage =
    Resize jsval jsval jsval
  | Background jsval
  | Crop jsval
  | Embed
  | MaxDim
  | MinDim
  | WithoutEnlargement
  | IgnoreAspectRatio
  | Extract jsval
  | Trim jsval
  | Flatten
  | Extend jsval
  | Negate
  | Rotate jsval
  | Flip
  | Flop
  | Blur jsval
  | Sharpen jsval
  | Gamma jsval
  | Greyscale
  | Normalise
  | Convolve jsval
  | Threshold jsval
  | ToColourspace jsval
  | WithMetadata jsval
  | ToFormat "jsval list"

text \<open>
  One conditional of \<open>transformer\<close>:
  \<^verbatim>\<open>if (c) { imageStream = imageStream.op(args); }\<close>
\<close>

definition apply_if :: "bool \<Rightarrow> stage \<Rightarrow> stage list \<Rightarrow> stage list" where
  "apply_if c st imageStream = (if c then imageStream @ [st] else imageStream)"

text \<open>
  \<open>transformer(options)\<close>, lines 136 to 248. The table \<open>sharp.gravity\<close> of the image
  library is a parameter.
\<close>

definition transformer :: "obj \<Rightarrow> obj \<Rightarrow> stage list" where
  "transformer gravity options =
    (let imageStream = [];
         imageStream = apply_if (truthy (get options ''resize'') \<and> truthy (get options ''size''))
           (Resize (property (get options ''size'') ''width'')
                   (property (get options ''size'') ''height'')
                   (property (get options ''size'') ''option'')) imageStream;
         imageStream = apply_if (truthy (get options ''background''))
           (Background (get options ''background'')) imageStream;
         imageStream = apply_if (truthy (get options ''crop'') \<and>
             hasOwnProperty (JObj gravity) (to_string (get options ''crop'')) = Inr True)
           (Crop (get gravity (to_string (get options ''crop'')))) imageStream;
         imageStream = apply_if (truthy (get options ''embed'')) Embed imageStream;
         imageStream = apply_if (truthy (get options ''max'')) MaxDim imageStream;
         imageStream = apply_if (truthy (get options ''min'')) MinDim imageStream;
         imageStream = apply_if (truthy (get options ''withoutEnlargement''))
           WithoutEnlargement imageStream;
         imageStream = apply_if (truthy (get options ''ignoreAspectRatio''))
           IgnoreAspectRatio imageStream;
         imageStream = apply_if (truthy (get options ''extract''))
           (Extract (get options ''extract'')) imageStream;
         imageStream = apply_if (truthy (get options ''trim''))
           (Trim (parseInt10 (get options ''trim''))) imageStream;
         imageStream = apply_if (truthy (get options ''flatten'')) Flatten imageStream;
         imageStream = apply_if (truthy (get options ''extend''))
           (Extend (get options ''extend'')) imageStream;
         imageStream = apply_if (truthy (get options ''negate'')) Negate imageStream;
         imageStream = apply_if
             (array_includes [JNum 0, JNum 90, JNum 180, JNum 270] (get options ''rotate''))
           (Rotate (get options ''rotate'')) imageStream;
         imageStream = apply_if (truthy (get options ''flip'')) Flip imageStream;
         imageStream = apply_if (truthy (get options ''flop'')) Flop imageStream;
         imageStream = apply_if (truthy (get options ''blur''))
           (Blur (get options ''blur'')) imageStream;
         imageStream = apply_if (truthy (get options ''sharpen''))
           (Sharpen (get options ''sharpen'')) imageStream;
         imageStream = apply_if (truthy (get options ''gamma''))
           (Gamma (get options ''gamma'')) imageStream;
         imageStream = apply_if
             (truthy (get options ''grayscale'') \<or> truthy (get options ''greyscale''))
           Greyscale imageStream;
         imageStream = apply_if
             (truthy (get options ''normalize'') \<or> truthy (get options ''normalise''))
           Normalise imageStream;
         imageStream = apply_if (truthy (get options ''convolve''))
           (Convolve (get options ''convolve'')) imageStream;
         imageStream = apply_if (truthy (get options ''threshold''))
           (Threshold (get options ''threshold'')) imageStream;
         imageStream = apply_if
             (truthy (get options ''toColourspace'') \<or> truthy (get options ''toColorspace''))
           (ToColourspace (js_or (get options ''toColourspace'') (get options ''toColorspace'')))
           imageStream;
         imageStream = apply_if (truthy (get options ''withMetadata''))
           (WithMetadata (get options ''withMetadata'')) imageStream;
         imageStream = apply_if (truthy (get options ''format''))
           (if typeof (get options ''format'') = ''object'' \<and>
               hasOwnProperty (get options ''format'') ''type'' = Inr True \<and>
               hasOwnProperty (get options ''format'') ''option'' = Inr True
            then ToFormat [property (get options ''format'') ''type'',
                           property (get options ''format'') ''option'']
            else ToFormat [get options ''format'']) imageStream
     in imageStream)"

text \<open>
  \<open>getFormat(format)\<close>, lines 250 to 255. The function \<open>lookup\<close> of the package
  mime-types is a parameter. \<open>typeof null\<close> is \<open>object\<close>, so a \<open>null\<close> format reaches
  \<open>hasOwnProperty\<close> and throws.
\<close>

definition getFormat :: "(jsval \<Rightarrow> jsval) \<Rightarrow> jsval \<Rightarrow> exn + jsval" where
  "getFormat lookup format =
     (if typeof format = ''object'' then
        (case hasOwnProperty format ''type'' of
           Inl e \<Rightarrow> Inl e
         | Inr True \<Rightarrow> Inr (lookup (property format ''type''))
         | Inr False \<Rightarrow> Inr (lookup format))
      else Inr (lookup format))"

section \<open>Object keys\<close>

text \<open>
  The constant \<open>gcName\<close> of \<open>_handleFile\<close>, line 59: the template literal
  \<open>${destination}/${filename}\<close> when \<open>typeof destination === 'string'\<close> and
  \<open>destination.length > 0\<close>, and \<open>filename\<close> itself otherwise. String conversion leaves
  a string as it is, so its length is the length of the destination.
\<close>

definition handleFile_gcName :: "jsval \<Rightarrow> jsval \<Rightarrow> jsval" where
  "handleFile_gcName destination filename =
     (if typeof destination = ''string'' \<and> length (to_string destination) > 0
      then JStr (to_string destination @ ''/'' @ to_string filename)
      else filename)"

text \<open>
  The constant \<open>gcName\<close> of \<open>_removeFile\<close>, line 87: the same expression over the
  stored descriptor's \<open>file.filename\<close>.
\<close>

definition removeFile_gcName :: "jsval \<Rightarrow> obj \<Rightarrow> jsval" where
  "removeFile_gcName destination file =
     (if typeof destination = ''string'' \<and> length (to_string destination) > 0
      then JStr (to_string destination @ ''/'' @ to_string (get file ''filename''))
      else get file ''filename'')"

section \<open>The storage engine\<close>

text \<open>\<open>MulterSharp.defaultOptions\<close>, lines 94 to 124.\<close>

definition defaultOptions :: obj where
  "defaultOptions =
     [(''acl'', JStr ''private''),
      (''resize'', JBool True),
      (''crop'', JBool False),
      (''background'', JBool False),
      (''embed'', JBool False),
      (''max'', JBool False),
      (''min'', JBool False),
      (''withoutEnlargement'', JBool False),
      (''ignoreAspectRatio'', JBool False),
      (''extract'', JBool False),
      (''trim'', JBool False),
      (''flatten'', JBool False),
      (''extend'', JBool False),
      (''negate'', JBool False),
      (''rotate'', JBool False),
      (''flip'', JBool False),
      (''flop'', JBool False),
      (''blur'', JBool False),
      (''sharpen'', JBool False),
      (''gamma'', JBool False),
      (''grayscale'', JBool False),
      (''greyscale'', JBool False),
      (''normalize'', JBool False),
      (''normalise'', JBool False),
      (''withMetadata'', JBool False),
      (''convolve'', JBool False),
      (''threshold'', JBool False),
      (''toColourspace'', JBool False),
      (''toColorspace'', JBool False)]"

text \<open>
  What the engine can do to the world outside it, in the order it does it: the calls
  to the storage client, to the byte streams, to the console and to the completion
  callback \<open>cb\<close> of the upload framework.
\<close>

datatype effect =
    Gcloud jsval jsval
  | Bucket jsval
  | BucketFile jsval
  | Pipe "stage list"
  | CreateWriteStream jsval jsval jsval
  | ConsoleInfo jsval
  | Delete jsval
  | Callback "jsval list"

text \<open>
  \<open>Gcloud p k\<close> is \<open>gcloud({projectId: p, keyFilename: k})\<close>, which makes the storage
  client; \<open>Bucket b\<close> is \<open>gcStorage.bucket(b)\<close>; \<open>BucketFile n\<close> is \<open>gcsBucket.file(n)\<close>;
  \<open>Pipe ss\<close> pipes the inbound byte stream into the transform \<open>ss\<close>;
  \<open>CreateWriteStream n acl ct\<close> opens the write stream of the file \<open>n\<close> with
  \<open>{predefinedAcl: acl, metadata: {contentType: ct}}\<close>; \<open>Delete n\<close> is \<open>gcFile.delete\<close>
  on the file \<open>n\<close>; \<open>Callback args\<close> is \<open>cb(args)\<close>.

  A strategy is a function value held by the engine and called in callback style.
\<close>

datatype strategy =
    Module_getDestination
  | Module_getFilename
  | Constant_destination jsval
  | Option_value jsval

record engine =
  this_options :: obj
  this_getFilename :: strategy
  this_getDestination :: strategy
  this_gcStorage :: "jsval \<times> jsval"
  this_gcsBucket :: jsval

text \<open>
  The constructor, lines 11 to 44, over the options object and \<open>process.env\<close>. It
  returns the calls made to the storage library, and the thrown error or the engine.
  \<open>Object.assign({}, MulterSharp.defaultOptions, options)\<close> is the merge of the two
  property lists, a property of \<open>options\<close> replacing the default of its name.
\<close>

definition env_get :: "(string \<Rightarrow> string option) \<Rightarrow> string \<Rightarrow> jsval" where
  "env_get env k = (case env k of Some s \<Rightarrow> JStr s | None \<Rightarrow> JUndefined)"

definition constructor :: "(string \<Rightarrow> string option) \<Rightarrow> obj \<Rightarrow> effect list \<times> (exn + engine)" where
  "constructor env options =
    (let gcOptions_bucket = js_or (js_or (get options ''bucket'') (env_get env ''GCS_BUCKET'')) JNull;
         gcOptions_projectId =
           js_or (js_or (get options ''projectId'') (env_get env ''GCLOUD_PROJECT'')) JNull;
         gcOptions_keyFilename =
           js_or (js_or (get options ''keyFilename'') (env_get env ''GCS_KEYFILE'')) JNull
     in
     if \<not> truthy (get options ''bucket'') then
       ([], Inl (Error ''You have to specify bucket for Google Cloud Storage to work.''))
     else if \<not> truthy (get options ''projectId'') then
       ([], Inl (Error ''You have to specify project id for Google Cloud Storage to work.''))
     else if \<not> truthy (get options ''keyFilename'') then
       ([], Inl (Error
          ''You have to specify credentials key file for Google Cloud Storage to work.''))
     else
       (let merged = AList.merge defaultOptions options in
        ([Gcloud gcOptions_projectId gcOptions_keyFilename, Bucket gcOptions_bucket],
         Inr \<lparr> this_options = merged,
               this_getFilename =
                 (if truthy (get merged ''filename'') then Option_value (get merged ''filename'')
                  else Module_getFilename),
               this_getDestination =
                 (if typeof (get options ''destination'') = ''string''
                  then Constant_destination (get options ''destination'')
                  else if truthy (get options ''destination'')
                  then Option_value (get options ''destination'')
                  else Module_getDestination),
               this_gcStorage = (gcOptions_projectId, gcOptions_keyFilename),
               this_gcsBucket = gcOptions_bucket \<rparr>)))"

subsection \<open>Naming strategies\<close>

text \<open>
  The environment of one operation: what each user-supplied function passes to its
  callback (error, value) for a request and a file, what the randomness source
  delivers (error, bytes), the events the two streams emit, what the storage client
  passes to the callback of a delete, and the two library parts the code consults.
  A strategy follows the callback contract: it calls its callback once.
\<close>

datatype stream_event = Info jsval | TransformError jsval | WriteError jsval | Finish

record world =
  user_function :: "nat \<Rightarrow> jsval \<Rightarrow> obj \<Rightarrow> jsval \<times> jsval"
  pseudoRandomBytes :: "jsval \<times> 8 word list"
  stream_events :: "stream_event list"
  delete_result :: "jsval list"
  mime_lookup :: "jsval \<Rightarrow> jsval"
  sharp_gravity :: obj

text \<open>\<open>getDestination\<close>, lines 126 to 128: \<open>cb(null, '')\<close>.\<close>

definition getDestination :: "jsval \<times> jsval" where
  "getDestination = (JNull, JStr [])"

text \<open>\<open>raw.toString('hex')\<close>: two lower-case hexadecimal digits for each byte.\<close>

definition hex_lower :: "nat \<Rightarrow> char" where
  "hex_lower d = ''0123456789abcdef'' ! d"

definition to_hex :: "8 word list \<Rightarrow> string" where
  "to_hex raw = concat (map (\<lambda>b. [hex_lower (unat b div 16), hex_lower (unat b mod 16)]) raw)"

text \<open>
  \<open>getFilename\<close>, lines 130 to 134:
  \<open>cb(err, err ? undefined : raw.toString('hex'))\<close> over the outcome of
  \<open>crypto.pseudoRandomBytes(16, ...)\<close>.
\<close>

definition getFilename :: "jsval \<times> 8 word list \<Rightarrow> jsval \<times> jsval" where
  "getFilename r = (case r of (err, raw) \<Rightarrow>
     (err, if truthy err then JUndefined else JStr (to_hex raw)))"

text \<open>
  Calling \<open>this.getDestination(req, file, k)\<close> or \<open>this.getFilename(req, file, k)\<close>:
  the arguments the strategy passes to \<open>k\<close>. Calling a value that is not a function
  throws.
\<close>

definition call_strategy :: "world \<Rightarrow> strategy \<Rightarrow> jsval \<Rightarrow> obj \<Rightarrow> exn + jsval \<times> jsval" where
  "call_strategy w f req file =
     (case f of
        Module_getDestination \<Rightarrow> Inr getDestination
      | Module_getFilename \<Rightarrow> Inr (getFilename (pseudoRandomBytes w))
      | Constant_destination d \<Rightarrow> Inr (JNull, d)
      | Option_value (JFun i src) \<Rightarrow> Inr (user_function w i req file)
      | Option_value _ \<Rightarrow> Inl (TypeError ''not a function''))"

subsection \<open>URI encoding\<close>

text \<open>
  \<open>encodeURI\<close> leaves letters, digits and the characters \<open>- _ . ! ~ * ' ( )\<close> and
  \<open>; / ? : @ & = + $ , #\<close> as they are and writes every other byte of the UTF-8 form
  as \<open>%XX\<close> with upper-case digits. (A lone surrogate, on which it throws, has no
  UTF-8 form.)
\<close>

definition uri_unescaped :: "char \<Rightarrow> bool" where
  "uri_unescaped c =
     (let n = (of_char c :: nat) in
      (65 \<le> n \<and> n \<le> 90) \<or> (97 \<le> n \<and> n \<le> 122) \<or> (48 \<le> n \<and> n \<le> 57) \<or>
      n \<in> {45, 95, 46, 33, 126, 42, 39, 40, 41, 59, 47, 63, 58, 64, 38, 61, 43, 36, 44, 35})"

definition hex_upper :: "nat \<Rightarrow> char" where
  "hex_upper d = ''0123456789ABCDEF'' ! d"

definition encodeURI :: "string \<Rightarrow> string" where
  "encodeURI s = concat (map (\<lambda>c.
      if uri_unescaped c then [c]
      else [CHR ''%'', hex_upper (of_char c div 16), hex_upper (of_char c mod 16)]) s)"

subsection \<open>Upload and removal\<close>

text \<open>
  The handlers of \<open>_handleFile\<close> for the events of the two streams, lines 64 to 79.
  The two \<open>console.info\<close> lines are kept as calls; their formatting is not modelled.
  \<open>getFormat\<close> is pure, so the content type computed at line 56 is the value line 75
  computes again.
\<close>

definition on_event :: "engine \<Rightarrow> jsval \<Rightarrow> jsval \<Rightarrow> jsval \<Rightarrow> stream_event \<Rightarrow> effect list" where
  "on_event this contentType gcName filename ev =
     (case ev of
        Info info \<Rightarrow> [ConsoleInfo info, ConsoleInfo info]
      | TransformError transformErr \<Rightarrow> [Callback [transformErr]]
      | WriteError gcErr \<Rightarrow> [Callback [gcErr]]
      | Finish \<Rightarrow>
          (let uri = encodeURI (''https://storage.googleapis.com/'' @
                       to_string (get (this_options this) ''bucket'') @ ''/'' @ to_string gcName)
           in [Callback [JNull,
                 JObj [(''mimetype'', contentType), (''path'', JStr uri),
                       (''filename'', filename)]]]))"

text \<open>
  \<open>_handleFile(req, file, cb)\<close>, lines 46 to 82: the effects in order, and the
  exception if one is thrown. Neither \<open>if (destErr) cb(destErr);\<close> nor
  \<open>if (fileErr) cb(fileErr);\<close> returns.
\<close>

definition handleFile :: "world \<Rightarrow> engine \<Rightarrow> jsval \<Rightarrow> obj \<Rightarrow> effect list \<times> exn option" where
  "handleFile w this req file =
     (case call_strategy w (this_getDestination this) req file of
        Inl e \<Rightarrow> ([], Some e)
      | Inr (destErr, destination) \<Rightarrow>
          (let t1 = (if truthy destErr then [Callback [destErr]] else []) in
           case call_strategy w (this_getFilename this) req file of
             Inl e \<Rightarrow> (t1, Some e)
           | Inr (fileErr, filename) \<Rightarrow>
               (let t2 = t1 @ (if truthy fileErr then [Callback [fileErr]] else []) in
                case getFormat (mime_lookup w) (get (this_options this) ''format'') of
                  Inl e \<Rightarrow> (t2, Some e)
                | Inr fmt \<Rightarrow>
                    (let predefinedAcl = get (this_options this) ''acl'';
                         contentType = js_or fmt (get file ''mimetype'');
                         gcName = handleFile_gcName destination filename
                     in (t2 @
                         [BucketFile gcName,
                          Pipe (transformer (sharp_gravity w) (this_options this)),
                          CreateWriteStream gcName predefinedAcl contentType] @
                         concat (map (on_event this contentType gcName filename)
                                   (stream_events w)),
                         None)))))"

text \<open>\<open>_removeFile(req, file, cb)\<close>, lines 84 to 91; \<open>gcFile.delete(cb)\<close> hands \<open>cb\<close> to
  the storage client, which calls it with the outcome of the delete.\<close>

definition removeFile :: "world \<Rightarrow> engine \<Rightarrow> jsval \<Rightarrow> obj \<Rightarrow> effect list \<times> exn option" where
  "removeFile w this req file =
     (case call_strategy w (this_getDestination this) req file of
        Inl e \<Rightarrow> ([], Some e)
      | Inr (destErr, destination) \<Rightarrow>
          (let gcName = removeFile_gcName destination file in
           ((if truthy destErr then [Callback [destErr]] else []) @
            [BucketFile gcName, Delete gcName, Callback (delete_result w)],
            None)))"

subsection \<open>Observations of a run\<close>

text \<open>The argument lists of the invocations of the completion callback, in order.\<close>

definition callbacks :: "effect list \<Rightarrow> jsval list list" where
  "callbacks t = concat (map (\<lambda>e. case e of Callback args \<Rightarrow> [args] | _ \<Rightarrow> []) t)"

text \<open>The write streams opened: object key, access scope and content type of each.\<close>

definition write_streams :: "effect list \<Rightarrow> (jsval \<times> jsval \<times> jsval) list" where
  "write_streams t =
     concat (map (\<lambda>e. case e of CreateWriteStream n a c \<Rightarrow> [(n, a, c)] | _ \<Rightarrow> []) t)"

text \<open>The object keys handed to \<open>gcsBucket.file\<close>, and the keys of the objects deleted.\<close>

definition opened_files :: "effect list \<Rightarrow> jsval list" where
  "opened_files t = concat (map (\<lambda>e. case e of BucketFile n \<Rightarrow> [n] | _ \<Rightarrow> []) t)"

definition deleted_files :: "effect list \<Rightarrow> jsval list" where
  "deleted_files t = concat (map (\<lambda>e. case e of Delete n \<Rightarrow> [n] | _ \<Rightarrow> []) t)"

text \<open>The transforms the inbound stream was piped into.\<close>

definition pipes :: "effect list \<Rightarrow> stage list list" where
  "pipes t = concat (map (\<lambda>e. case e of Pipe ss \<Rightarrow> [ss] | _ \<Rightarrow> []) t)"

definition is_info :: "stream_event \<Rightarrow> bool" where
  "is_info ev = (case ev of Info i \<Rightarrow> True | _ \<Rightarrow> False)"

text \<open>The position of a stage in the construction order of \<open>transformer\<close>.\<close>

fun stage_position :: "stage \<Rightarrow> nat" where
  "stage_position (Resize w h p) = 1"
| "stage_position (Background v) = 2"
| "stage_position (Crop v) = 3"
| "stage_position Embed = 4"
| "stage_position MaxDim = 5"
| "stage_position MinDim = 6"
| "stage_position WithoutEnlargement = 7"
| "stage_position IgnoreAspectRatio = 8"
| "stage_position (Extract v) = 9"
| "stage_position (Trim v) = 10"
| "stage_position Flatten = 11"
| "stage_position (Extend v) = 12"
| "stage_position Negate = 13"
| "stage_position (Rotate v) = 14"
| "stage_position Flip = 15"
| "stage_position Flop = 16"
| "stage_position (Blur v) = 17"
| "stage_position (Sharpen v) = 18"
| "stage_position (Gamma v) = 19"
| "stage_position Greyscale = 20"
| "stage_position Normalise = 21"
| "stage_position (Convolve v) = 22"
| "stage_position (Threshold v) = 23"
| "stage_position (ToColourspace v) = 24"
| "stage_position (WithMetadata v) = 25"
| "stage_position (ToFormat args) = 26"

subsection \<open>Concrete library parts and inputs\<close>

text \<open>
  An excerpt of \<open>lookup\<close> of mime-types: the function returns the MIME type of a known
  extension and \<open>false\<close> for everything else, an unknown extension as well as a value
  that is not a string.
\<close>

definition lookup_excerpt :: "jsval \<Rightarrow> jsval" where
  "lookup_excerpt v =
     (case v of
        JStr s \<Rightarrow>
          (case map_of [(''jpeg'', ''image/jpeg''), (''jpg'', ''image/jpeg''),
                        (''png'', ''image/png''), (''webp'', ''image/webp''),
                        (''tiff'', ''image/tiff''), (''gif'', ''image/gif'')] s of
             Some t \<Rightarrow> JStr t
           | None \<Rightarrow> JBool False)
      | _ \<Rightarrow> JBool False)"

text \<open>The table \<open>sharp.gravity\<close>.\<close>

definition gravity_table :: obj where
  "gravity_table =
     [(''north'', JNum 1), (''northeast'', JNum 5), (''southeast'', JNum 6),
      (''south'', JNum 2), (''southwest'', JNum 7), (''west'', JNum 4),
      (''northwest'', JNum 8), (''east'', JNum 3), (''center'', JNum 0),
      (''centre'', JNum 0)]"

text \<open>
  The invariant of the builder along \<open>transformer\<close>: the stages queued so far stand in
  strictly increasing position, all below the position of the next conditional.
\<close>

definition ordered_below :: "nat \<Rightarrow> stage list \<Rightarrow> bool" where
  "ordered_below n s =
     (sorted_wrt (<) (map stage_position s) \<and> list_all (\<lambda>x. stage_position x < n) s)"

text \<open>Inputs for the concrete instances of the claims.\<close>

definition example_options :: obj where
  "example_options = AList.merge defaultOptions
     [(''bucket'', JStr ''b''), (''projectId'', JStr ''p''), (''keyFilename'', JStr ''k''),
      (''size'', JObj [(''width'', JNum 100), (''height'', JNum 100)]),
      (''rotate'', JNum 90), (''format'', JStr ''jpeg'')]"

definition example_config :: obj where
  "example_config =
     [(''bucket'', JStr ''b''), (''projectId'', JStr ''p''), (''keyFilename'', JStr ''k''),
      (''destination'', JStr ''public/img''), (''format'', JStr ''jpeg'')]"

definition example_engine :: engine where
  "example_engine =
     \<lparr> this_options = AList.merge defaultOptions example_config,
       this_getFilename = Module_getFilename,
       this_getDestination = Constant_destination (JStr ''public/img''),
       this_gcStorage = (JStr ''p'', JStr ''k''),
       this_gcsBucket = JStr ''b'' \<rparr>"

definition example_file :: obj where
  "example_file =
     [(''fieldname'', JStr ''pic''), (''originalname'', JStr ''cat.png''),
      (''encoding'', JStr ''7bit''), (''mimetype'', JStr ''image/png'')]"

text \<open>
  A world in which the randomness source and both streams succeed; its user function
  number 1 is a destination strategy that reports an error.
\<close>

definition example_world :: world where
  "example_world =
     \<lparr> user_function = (\<lambda>i req file.
         if i = 1 then (JObj [(''message'', JStr ''no destination'')], JUndefined)
         else (JNull, JUndefined)),
       pseudoRandomBytes = (JNull, [0, 1, 2, 3, 4, 5, 6, 7, 8, 9, 10, 11, 12, 13, 14, 255]),
       stream_events = [Info (JObj [(''size'', JNum 5120)]), Finish],
       delete_result = [JNull],
       mime_lookup = lookup_excerpt,
       sharp_gravity = gravity_table \<rparr>"

text \<open>An engine for the options \<open>{bucket, projectId, keyFilename, format}\<close>.\<close>

definition engine_with_format :: "jsval \<Rightarrow> engine" where
  "engine_with_format format =
     \<lparr> this_options = AList.merge defaultOptions
         [(''bucket'', JStr ''b''), (''projectId'', JStr ''p''), (''keyFilename'', JStr ''k''),
          (''format'', format)],
       this_getFilename = Module_getFilename,
       this_getDestination = Module_getDestination,
       this_gcStorage = (JStr ''p'', JStr ''k''),
       this_gcsBucket = JStr ''b'' \<rparr>"

text \<open>The descriptor of the file that upload stored.\<close>

definition example_stored :: obj where
  "example_stored =
     [(''fieldname'', JStr ''pic''), (''originalname'', JStr ''cat.png''),
      (''encoding'', JStr ''7bit''), (''mimetype'', JStr ''image/jpeg''),
      (''path'', JStr
         ''https://storage.googleapis.com/b/public/img/000102030405060708090a0b0c0d0eff''),
      (''filename'', JStr ''000102030405060708090a0b0c0d0eff'')]"

text \<open>
  Options whose destination is a function; in \<open>example_world\<close> that function reports
  an error.
\<close>

definition failing_destination_config :: obj where
  "failing_destination_config =
     [(''bucket'', JStr ''b''), (''projectId'', JStr ''p''), (''keyFilename'', JStr ''k''),
      (''destination'', JFun 1 ''(req, file, cb) => cb(new Error())'')]"

definition failing_destination_engine :: engine where
  "failing_destination_engine =
     \<lparr> this_options = AList.merge defaultOptions failing_destination_config,
       this_getFilename = Module_getFilename,
       this_getDestination = Option_value (JFun 1 ''(req, file, cb) => cb(new Error())''),
       this_gcStorage = (JStr ''p'', JStr ''k''),
       this_gcsBucket = JStr ''b'' \<rparr>"

section \<open>Properties\<close>

subsection \<open>Auxiliary facts\<close>

lemma typeof_string_iff: "typeof v = ''string'' \<longleftrightarrow> (\<exists>s. v = JStr s)"
  by (cases v) simp_all

lemma get_merge:
  "get (AList.merge a b) k = (case map_of b k of Some v \<Rightarrow> v | None \<Rightarrow> get a k)"
  by (simp add: get_def merge_conv' map_add_def split: option.splits)

lemma get_delete: "get (AList.delete k m) k' = (if k' = k then JUndefined else get m k')"
  by (simp add: get_def delete_conv')

lemma apply_if_append: "apply_if c st s = s @ (if c then [st] else [])"
  by (simp add: apply_if_def)

lemma apply_if_False: "apply_if False st s = s"
  by (simp add: apply_if_def)

lemma length_apply_if: "length (apply_if c st s) = length s + of_bool c"
  by (simp add: apply_if_def)

lemma mem_optional: "x \<in> set (if c then [y] else []) \<longleftrightarrow> c \<and> x = y"
  by auto

lemma array_includes_cardinal:
  "array_includes [JNum 0, JNum 90, JNum 180, JNum 270] v \<longleftrightarrow>
     v \<in> {JNum 0, JNum 90, JNum 180, JNum 270}"
  by (cases v) (auto simp: array_includes_def same_value_zero_def)

lemma not_cardinal_undefined:
  "array_includes [JNum 0, JNum 90, JNum 180, JNum 270] JUndefined = False"
  by (simp add: array_includes_def same_value_zero_def)

lemma ordered_below_Nil: "ordered_below n []"
  by (simp add: ordered_below_def)

lemma ordered_below_step:
  "stage_position st < m \<Longrightarrow> ordered_below (stage_position st) s \<Longrightarrow>
   ordered_below m (apply_if c st s)"
  by (auto simp: ordered_below_def apply_if_def sorted_wrt_append list_all_iff)

lemma transformer_ordered: "ordered_below 27 (transformer gravity options)"
  unfolding transformer_def Let_def
  by (intro ordered_below_step ordered_below_Nil) simp_all

lemma transformer_sorted:
  "sorted_wrt (<) (map stage_position (transformer gravity options))"
  using transformer_ordered [of gravity options] by (simp add: ordered_below_def)

lemmas transformer_stages = transformer_def Let_def apply_if_append

text \<open>When each stage is in the pipeline, and with which arguments.\<close>

lemma Resize_mem:
  "Resize w h p \<in> set (transformer gravity options) \<longleftrightarrow>
     truthy (get options ''resize'') \<and> truthy (get options ''size'') \<and>
     w = property (get options ''size'') ''width'' \<and>
     h = property (get options ''size'') ''height'' \<and>
     p = property (get options ''size'') ''option''"
  unfolding transformer_stages
  apply (simp only: set_append Un_iff mem_optional append_Nil)
  apply auto
  done

lemma Background_mem:
  "Background v \<in> set (transformer gravity options) \<longleftrightarrow>
     truthy (get options ''background'') \<and> v = get options ''background''"
  unfolding transformer_stages
  apply (simp only: set_append Un_iff mem_optional append_Nil)
  apply auto
  done

lemma Crop_mem:
  "Crop v \<in> set (transformer gravity options) \<longleftrightarrow>
     truthy (get options ''crop'') \<and>
     map_of gravity (to_string (get options ''crop'')) \<noteq> None \<and>
     v = get gravity (to_string (get options ''crop''))"
  unfolding transformer_stages
  apply (simp only: set_append Un_iff mem_optional append_Nil)
  apply auto
  done

lemma Embed_mem:
  "Embed \<in> set (transformer gravity options) \<longleftrightarrow>
     truthy (get options ''embed'')"
  unfolding transformer_stages
  apply (simp only: set_append Un_iff mem_optional append_Nil)
  apply auto
  done

lemma MaxDim_mem:
  "MaxDim \<in> set (transformer gravity options) \<longleftrightarrow>
     truthy (get options ''max'')"
  unfolding transformer_stages
  apply (simp only: set_append Un_iff mem_optional append_Nil)
  apply auto
  done

lemma MinDim_mem:
  "MinDim \<in> set (transformer gravity options) \<longleftrightarrow>
     truthy (get options ''min'')"
  unfolding transformer_stages
  apply (simp only: set_append Un_iff mem_optional append_Nil)
  apply auto
  done

lemma WithoutEnlargement_mem:
  "WithoutEnlargement \<in> set (transformer gravity options) \<longleftrightarrow>
     truthy (get options ''withoutEnlargement'')"
  unfolding transformer_stages
  apply (simp only: set_append Un_iff mem_optional append_Nil)
  apply auto
  done

lemma IgnoreAspectRatio_mem:
  "IgnoreAspectRatio \<in> set (transformer gravity options) \<longleftrightarrow>
     truthy (get options ''ignoreAspectRatio'')"
  unfolding transformer_stages
  apply (simp only: set_append Un_iff mem_optional append_Nil)
  apply auto
  done

lemma Extract_mem:
  "Extract v \<in> set (transformer gravity options) \<longleftrightarrow>
     truthy (get options ''extract'') \<and> v = get options ''extract''"
  unfolding transformer_stages
  apply (simp only: set_append Un_iff mem_optional append_Nil)
  apply auto
  done

lemma Trim_mem:
  "Trim v \<in> set (transformer gravity options) \<longleftrightarrow>
     truthy (get options ''trim'') \<and> v = parseInt10 (get options ''trim'')"
  unfolding transformer_stages
  apply (simp only: set_append Un_iff mem_optional append_Nil)
  apply auto
  done

lemma Flatten_mem:
  "Flatten \<in> set (transformer gravity options) \<longleftrightarrow>
     truthy (get options ''flatten'')"
  unfolding transformer_stages
  apply (simp only: set_append Un_iff mem_optional append_Nil)
  apply auto
  done

lemma Extend_mem:
  "Extend v \<in> set (transformer gravity options) \<longleftrightarrow>
     truthy (get options ''extend'') \<and> v = get options ''extend''"
  unfolding transformer_stages
  apply (simp only: set_append Un_iff mem_optional append_Nil)
  apply auto
  done

lemma Negate_mem:
  "Negate \<in> set (transformer gravity options) \<longleftrightarrow>
     truthy (get options ''negate'')"
  unfolding transformer_stages
  apply (simp only: set_append Un_iff mem_optional append_Nil)
  apply auto
  done

lemma Rotate_mem:
  "Rotate v \<in> set (transformer gravity options) \<longleftrightarrow>
     get options ''rotate'' \<in> {JNum 0, JNum 90, JNum 180, JNum 270} \<and> v = get options ''rotate''"
  unfolding transformer_stages
  apply (simp only: set_append Un_iff mem_optional append_Nil array_includes_cardinal)
  apply auto
  done

lemma Flip_mem:
  "Flip \<in> set (transformer gravity options) \<longleftrightarrow>
     truthy (get options ''flip'')"
  unfolding transformer_stages
  apply (simp only: set_append Un_iff mem_optional append_Nil)
  apply auto
  done

lemma Flop_mem:
  "Flop \<in> set (transformer gravity options) \<longleftrightarrow>
     truthy (get options ''flop'')"
  unfolding transformer_stages
  apply (simp only: set_append Un_iff mem_optional append_Nil)
  apply auto
  done

lemma Blur_mem:
  "Blur v \<in> set (transformer gravity options) \<longleftrightarrow>
     truthy (get options ''blur'') \<and> v = get options ''blur''"
  unfolding transformer_stages
  apply (simp only: set_append Un_iff mem_optional append_Nil)
  apply auto
  done

lemma Sharpen_mem:
  "Sharpen v \<in> set (transformer gravity options) \<longleftrightarrow>
     truthy (get options ''sharpen'') \<and> v = get options ''sharpen''"
  unfolding transformer_stages
  apply (simp only: set_append Un_iff mem_optional append_Nil)
  apply auto
  done

lemma Gamma_mem:
  "Gamma v \<in> set (transformer gravity options) \<longleftrightarrow>
     truthy (get options ''gamma'') \<and> v = get options ''gamma''"
  unfolding transformer_stages
  apply (simp only: set_append Un_iff mem_optional append_Nil)
  apply auto
  done

lemma Greyscale_mem:
  "Greyscale \<in> set (transformer gravity options) \<longleftrightarrow>
     truthy (get options ''grayscale'') \<or> truthy (get options ''greyscale'')"
  unfolding transformer_stages
  apply (simp only: set_append Un_iff mem_optional append_Nil)
  apply auto
  done

lemma Normalise_mem:
  "Normalise \<in> set (transformer gravity options) \<longleftrightarrow>
     truthy (get options ''normalize'') \<or> truthy (get options ''normalise'')"
  unfolding transformer_stages
  apply (simp only: set_append Un_iff mem_optional append_Nil)
  apply auto
  done

lemma Convolve_mem:
  "Convolve v \<in> set (transformer gravity options) \<longleftrightarrow>
     truthy (get options ''convolve'') \<and> v = get options ''convolve''"
  unfolding transformer_stages
  apply (simp only: set_append Un_iff mem_optional append_Nil)
  apply auto
  done

lemma Threshold_mem:
  "Threshold v \<in> set (transformer gravity options) \<longleftrightarrow>
     truthy (get options ''threshold'') \<and> v = get options ''threshold''"
  unfolding transformer_stages
  apply (simp only: set_append Un_iff mem_optional append_Nil)
  apply auto
  done

lemma ToColourspace_mem:
  "ToColourspace v \<in> set (transformer gravity options) \<longleftrightarrow>
     (truthy (get options ''toColourspace'') \<or> truthy (get options ''toColorspace'')) \<and>
     v = js_or (get options ''toColourspace'') (get options ''toColorspace'')"
  unfolding transformer_stages
  apply (simp only: set_append Un_iff mem_optional append_Nil)
  apply auto
  done

lemma WithMetadata_mem:
  "WithMetadata v \<in> set (transformer gravity options) \<longleftrightarrow>
     truthy (get options ''withMetadata'') \<and> v = get options ''withMetadata''"
  unfolding transformer_stages
  apply (simp only: set_append Un_iff mem_optional append_Nil)
  apply auto
  done

lemma ToFormat_mem:
  "ToFormat args \<in> set (transformer gravity options) \<longleftrightarrow>
     truthy (get options ''format'') \<and>
     args = (if typeof (get options ''format'') = ''object'' \<and>
               hasOwnProperty (get options ''format'') ''type'' = Inr True \<and>
               hasOwnProperty (get options ''format'') ''option'' = Inr True
             then [property (get options ''format'') ''type'', property (get options ''format'') ''option'']
             else [get options ''format''])"
  unfolding transformer_stages
  apply (simp only: set_append Un_iff mem_optional append_Nil)
  apply auto
  done

lemma transformer_resize_first:
  "truthy (get options ''resize'') \<Longrightarrow> truthy (get options ''size'') \<Longrightarrow>
   \<exists>rest. transformer gravity options =
     Resize (property (get options ''size'') ''width'')
       (property (get options ''size'') ''height'')
       (property (get options ''size'') ''option'') # rest"
  unfolding transformer_stages
  by simp

lemma transformer_format_last:
  "truthy (get options ''format'') \<Longrightarrow>
   \<exists>args. last (transformer gravity options) = ToFormat args"
  unfolding transformer_stages
  apply (simp split del: if_split add: if_distrib[of last])
  apply auto
  done

lemma transformer_without_rotate:
  assumes "get options ''rotate'' \<notin> {JNum 0, JNum 90, JNum 180, JNum 270}"
  shows "transformer gravity options = transformer gravity (AList.delete ''rotate'' options)"
proof -
  have no: "array_includes [JNum 0, JNum 90, JNum 180, JNum 270] (get options ''rotate'') = False"
    using assms by (simp only: array_includes_cardinal)
  show ?thesis
    unfolding transformer_def Let_def
    by (simp add: get_delete no not_cardinal_undefined apply_if_False)
qed

lemma transformer_with_rotate:
  assumes "get options ''rotate'' \<in> {JNum 0, JNum 90, JNum 180, JNum 270}"
  shows "length (transformer gravity options) =
     Suc (length (transformer gravity (AList.delete ''rotate'' options)))"
proof -
  have yes: "array_includes [JNum 0, JNum 90, JNum 180, JNum 270] (get options ''rotate'') = True"
    using assms by (simp only: array_includes_cardinal)
  show ?thesis
    unfolding transformer_def Let_def length_apply_if
    by (simp add: get_delete yes not_cardinal_undefined)
qed

text \<open>The effects of an upload whose strategies and content type raise nothing.\<close>

lemma callbacks_Nil: "callbacks [] = []"
  by (simp add: callbacks_def)

lemma callbacks_Cons:
  "callbacks (e # t) = (case e of Callback args \<Rightarrow> [args] | _ \<Rightarrow> []) @ callbacks t"
  by (simp add: callbacks_def)

lemma callbacks_append: "callbacks (a @ b) = callbacks a @ callbacks b"
  by (simp add: callbacks_def)

lemma write_streams_Nil: "write_streams [] = []"
  by (simp add: write_streams_def)

lemma write_streams_Cons:
  "write_streams (e # t) =
     (case e of CreateWriteStream n a c \<Rightarrow> [(n, a, c)] | _ \<Rightarrow> []) @ write_streams t"
  by (simp add: write_streams_def)

lemma write_streams_append: "write_streams (a @ b) = write_streams a @ write_streams b"
  by (simp add: write_streams_def)

lemma write_streams_events:
  "write_streams (concat (map (on_event this ct key fn) evs)) = []"
  by (induction evs) (auto simp: write_streams_append write_streams_Cons write_streams_Nil
      on_event_def Let_def split: stream_event.splits)

lemma callbacks_info_events:
  "list_all is_info evs \<Longrightarrow> callbacks (concat (map (on_event this ct key fn) evs)) = []"
  by (induction evs) (auto simp: callbacks_append callbacks_Cons callbacks_Nil
      on_event_def is_info_def split: stream_event.splits)

lemma callbacks_finish_events:
  "filter (\<lambda>ev. \<not> is_info ev) evs = [Finish] \<Longrightarrow>
   callbacks (concat (map (on_event this ct key fn) evs)) =
     [[JNull, JObj [(''mimetype'', ct),
      (''path'', JStr (encodeURI (''https://storage.googleapis.com/'' @
                    to_string (get (this_options this) ''bucket'') @ ''/'' @ to_string key))),
      (''filename'', fn)]]]"
proof (induction evs)
  case Nil
  then show ?case by simp
next
  case (Cons ev evs)
  show ?case
  proof (cases "is_info ev")
    case True
    then have "callbacks (on_event this ct key fn ev) = []"
      by (auto simp: is_info_def on_event_def callbacks_Cons callbacks_Nil split: stream_event.splits)
    with Cons True show ?thesis by (simp add: callbacks_append)
  next
    case False
    with Cons.prems have ev: "ev = Finish" and rest: "filter (\<lambda>ev. \<not> is_info ev) evs = []"
      by simp_all
    from rest have "list_all is_info evs"
      by (simp add: filter_empty_conv list_all_iff)
    then have none: "callbacks (concat (map (on_event this ct key fn) evs)) = []"
      by (rule callbacks_info_events)
    have one: "callbacks (on_event this ct key fn Finish) =
      [[JNull, JObj [(''mimetype'', ct),
        (''path'', JStr (encodeURI (''https://storage.googleapis.com/'' @
                    to_string (get (this_options this) ''bucket'') @ ''/'' @ to_string key))),
        (''filename'', fn)]]]"
      by (simp add: on_event_def Let_def callbacks_Cons callbacks_Nil)
    show ?thesis
      by (simp add: ev callbacks_append none one)
  qed
qed

lemma handleFile_run:
  assumes "call_strategy w (this_getDestination this) req file = Inr (destErr, destination)"
      and "call_strategy w (this_getFilename this) req file = Inr (fileErr, filename)"
      and "getFormat (mime_lookup w) (get (this_options this) ''format'') = Inr fmt"
  shows "handleFile w this req file =
     ((if truthy destErr then [Callback [destErr]] else []) @
      (if truthy fileErr then [Callback [fileErr]] else []) @
      [BucketFile (handleFile_gcName destination filename),
       Pipe (transformer (sharp_gravity w) (this_options this)),
       CreateWriteStream (handleFile_gcName destination filename) (get (this_options this) ''acl'')
         (js_or fmt (get file ''mimetype''))] @
      concat (map (on_event this (js_or fmt (get file ''mimetype''))
                     (handleFile_gcName destination filename) filename) (stream_events w)),
      None)"
  using assms by (simp add: handleFile_def Let_def)

lemma pipes_Nil: "pipes [] = []"
  by (simp add: pipes_def)

lemma pipes_Cons: "pipes (e # t) = (case e of Pipe ss \<Rightarrow> [ss] | _ \<Rightarrow> []) @ pipes t"
  by (simp add: pipes_def)

lemma pipes_append: "pipes (a @ b) = pipes a @ pipes b"
  by (simp add: pipes_def)

lemma pipes_events: "pipes (concat (map (on_event this ct key fn) evs)) = []"
  by (induction evs) (auto simp: pipes_append pipes_Cons pipes_Nil
      on_event_def Let_def split: stream_event.splits)

lemma opened_files_Nil: "opened_files [] = []"
  by (simp add: opened_files_def)

lemma opened_files_Cons:
  "opened_files (e # t) = (case e of BucketFile n \<Rightarrow> [n] | _ \<Rightarrow> []) @ opened_files t"
  by (simp add: opened_files_def)

lemma opened_files_append: "opened_files (a @ b) = opened_files a @ opened_files b"
  by (simp add: opened_files_def)

lemma opened_files_events: "opened_files (concat (map (on_event this ct key fn) evs)) = []"
  by (induction evs) (auto simp: opened_files_append opened_files_Cons opened_files_Nil
      on_event_def Let_def split: stream_event.splits)

lemma handleFile_opens:
  assumes "call_strategy w (this_getDestination this) req file = Inr (destErr, destination)"
      and "call_strategy w (this_getFilename this) req file = Inr (fileErr, filename)"
      and "getFormat (mime_lookup w) (get (this_options this) ''format'') = Inr fmt"
  shows "opened_files (fst (handleFile w this req file)) =
     [handleFile_gcName destination filename]"
  unfolding handleFile_run [OF assms] fst_conv
  by (simp add: opened_files_append opened_files_Cons opened_files_Nil opened_files_events)

lemma removeFile_deletes:
  assumes "call_strategy w (this_getDestination this) req file = Inr (destErr, destination)"
  shows "deleted_files (fst (removeFile w this req file)) = [removeFile_gcName destination file]"
  using assms by (simp add: removeFile_def Let_def deleted_files_def)

lemma set_callbacks: "set (callbacks t) = {args. Callback args \<in> set t}"
  by (induction t) (auto simp: callbacks_Cons callbacks_Nil split: effect.splits)

lemma finish_calls_back:
  "Finish \<in> set evs \<Longrightarrow>
   Callback [JNull, JObj [(''mimetype'', ct),
      (''path'', JStr (encodeURI (''https://storage.googleapis.com/'' @
                    to_string (get (this_options this) ''bucket'') @ ''/'' @ to_string key))),
      (''filename'', fn)]]
     \<in> set (concat (map (on_event this ct key fn) evs))"
proof -
  assume "Finish \<in> set evs"
  moreover have "Callback [JNull, JObj [(''mimetype'', ct),
      (''path'', JStr (encodeURI (''https://storage.googleapis.com/'' @
                    to_string (get (this_options this) ''bucket'') @ ''/'' @ to_string key))),
      (''filename'', fn)]] \<in> set (on_event this ct key fn Finish)"
    by (simp add: on_event_def Let_def)
  ultimately show ?thesis
    by auto
qed

section \<open>Claims\<close>

subsection \<open>Facts about the concrete inputs\<close>

lemma engine_with_format_constructed:
  "constructor env
     [(''bucket'', JStr ''b''), (''projectId'', JStr ''p''), (''keyFilename'', JStr ''k''),
      (''format'', format)] =
     ([Gcloud (JStr ''p'') (JStr ''k''), Bucket (JStr ''b'')], Inr (engine_with_format format))"
  by (simp add: constructor_def Let_def get_def js_or_def engine_with_format_def get_merge
      defaultOptions_def)

lemma example_pipeline:
  "transformer gravity_table example_options =
     [Resize (JNum 100) (JNum 100) JUndefined, Rotate (JNum 90), ToFormat [JStr ''jpeg'']]"
  by code_simp

subsection \<open>C4: order of the stages and their guards\<close>

text \<open>
  Claim C4, as amended. The pipeline \<open>transformer\<close> compiles holds its stages in the
  fixed order of the 26 positions, each at most once: resize, when present, is the
  first stage and the output-format conversion, when present, the last. Every stage
  other than rotate is in the pipeline if and only if its toggle is truthy and its own
  guard holds (a size for resize, a named gravity for crop), with the arguments the
  options give; a falsy or absent toggle queues nothing. The rotate stage is in the
  pipeline if and only if the rotate value is one of 0, 90, 180 and 270, so the falsy
  value 0 queues \<open>rotate(0)\<close>.
\<close>

theorem transformer_order_and_guards:
  "sorted_wrt (<) (map stage_position (transformer gravity options)) \<and>
   (truthy (get options ''resize'') \<and> truthy (get options ''size'') \<longrightarrow>
      (\<exists>rest. transformer gravity options =
         Resize (property (get options ''size'') ''width'')
           (property (get options ''size'') ''height'')
           (property (get options ''size'') ''option'') # rest)) \<and>
   (truthy (get options ''format'') \<longrightarrow>
      (\<exists>args. last (transformer gravity options) = ToFormat args)) \<and>
   (\<forall>w h p. Resize w h p \<in> set (transformer gravity options) \<longleftrightarrow>
      truthy (get options ''resize'') \<and> truthy (get options ''size'') \<and>
      w = property (get options ''size'') ''width'' \<and> h = property (get options ''size'') ''height'' \<and>
      p = property (get options ''size'') ''option'') \<and>
   (\<forall>v. Background v \<in> set (transformer gravity options) \<longleftrightarrow> truthy (get options ''background'') \<and> v = get options ''background'') \<and>
   (\<forall>v. Crop v \<in> set (transformer gravity options) \<longleftrightarrow>
      truthy (get options ''crop'') \<and> map_of gravity (to_string (get options ''crop'')) \<noteq> None \<and>
      v = get gravity (to_string (get options ''crop''))) \<and>
   (Embed \<in> set (transformer gravity options) \<longleftrightarrow> truthy (get options ''embed'')) \<and>
   (MaxDim \<in> set (transformer gravity options) \<longleftrightarrow> truthy (get options ''max'')) \<and>
   (MinDim \<in> set (transformer gravity options) \<longleftrightarrow> truthy (get options ''min'')) \<and>
   (WithoutEnlargement \<in> set (transformer gravity options) \<longleftrightarrow> truthy (get options ''withoutEnlargement'')) \<and>
   (IgnoreAspectRatio \<in> set (transformer gravity options) \<longleftrightarrow> truthy (get options ''ignoreAspectRatio'')) \<and>
   (\<forall>v. Extract v \<in> set (transformer gravity options) \<longleftrightarrow> truthy (get options ''extract'') \<and> v = get options ''extract'') \<and>
   (\<forall>v. Trim v \<in> set (transformer gravity options) \<longleftrightarrow>
      truthy (get options ''trim'') \<and> v = parseInt10 (get options ''trim'')) \<and>
   (Flatten \<in> set (transformer gravity options) \<longleftrightarrow> truthy (get options ''flatten'')) \<and>
   (\<forall>v. Extend v \<in> set (transformer gravity options) \<longleftrightarrow> truthy (get options ''extend'') \<and> v = get options ''extend'') \<and>
   (Negate \<in> set (transformer gravity options) \<longleftrightarrow> truthy (get options ''negate'')) \<and>
   (\<forall>v. Rotate v \<in> set (transformer gravity options) \<longleftrightarrow>
      get options ''rotate'' \<in> {JNum 0, JNum 90, JNum 180, JNum 270} \<and> v = get options ''rotate'') \<and>
   (Flip \<in> set (transformer gravity options) \<longleftrightarrow> truthy (get options ''flip'')) \<and>
   (Flop \<in> set (transformer gravity options) \<longleftrightarrow> truthy (get options ''flop'')) \<and>
   (\<forall>v. Blur v \<in> set (transformer gravity options) \<longleftrightarrow> truthy (get options ''blur'') \<and> v = get options ''blur'') \<and>
   (\<forall>v. Sharpen v \<in> set (transformer gravity options) \<longleftrightarrow> truthy (get options ''sharpen'') \<and> v = get options ''sharpen'') \<and>
   (\<forall>v. Gamma v \<in> set (transformer gravity options) \<longleftrightarrow> truthy (get options ''gamma'') \<and> v = get options ''gamma'') \<and>
   (Greyscale \<in> set (transformer gravity options) \<longleftrightarrow>
      truthy (get options ''grayscale'') \<or> truthy (get options ''greyscale'')) \<and>
   (Normalise \<in> set (transformer gravity options) \<longleftrightarrow>
      truthy (get options ''normalize'') \<or> truthy (get options ''normalise'')) \<and>
   (\<forall>v. Convolve v \<in> set (transformer gravity options) \<longleftrightarrow> truthy (get options ''convolve'') \<and> v = get options ''convolve'') \<and>
   (\<forall>v. Threshold v \<in> set (transformer gravity options) \<longleftrightarrow> truthy (get options ''threshold'') \<and> v = get options ''threshold'') \<and>
   (\<forall>v. ToColourspace v \<in> set (transformer gravity options) \<longleftrightarrow>
      (truthy (get options ''toColourspace'') \<or> truthy (get options ''toColorspace'')) \<and>
      v = js_or (get options ''toColourspace'') (get options ''toColorspace'')) \<and>
   (\<forall>v. WithMetadata v \<in> set (transformer gravity options) \<longleftrightarrow> truthy (get options ''withMetadata'') \<and> v = get options ''withMetadata'') \<and>
   (\<forall>args. ToFormat args \<in> set (transformer gravity options) \<longleftrightarrow>
      truthy (get options ''format'') \<and>
      args = (if typeof (get options ''format'') = ''object'' \<and>
                hasOwnProperty (get options ''format'') ''type'' = Inr True \<and>
                hasOwnProperty (get options ''format'') ''option'' = Inr True
              then [property (get options ''format'') ''type'', property (get options ''format'') ''option'']
              else [get options ''format'']))"
proof -
  have first: "truthy (get options ''resize'') \<and> truthy (get options ''size'') \<longrightarrow>
      (\<exists>rest. transformer gravity options =
         Resize (property (get options ''size'') ''width'')
           (property (get options ''size'') ''height'')
           (property (get options ''size'') ''option'') # rest)"
    using transformer_resize_first [of options gravity] by blast
  have last: "truthy (get options ''format'') \<longrightarrow>
      (\<exists>args. last (transformer gravity options) = ToFormat args)"
    using transformer_format_last [of options gravity] by blast
  show ?thesis
    by (intro conjI allI transformer_sorted first last
        Resize_mem Background_mem Crop_mem Embed_mem MaxDim_mem MinDim_mem WithoutEnlargement_mem IgnoreAspectRatio_mem Extract_mem
        Trim_mem Flatten_mem Extend_mem Negate_mem Rotate_mem Flip_mem Flop_mem Blur_mem Sharpen_mem
        Gamma_mem Greyscale_mem Normalise_mem Convolve_mem Threshold_mem ToColourspace_mem WithMetadata_mem ToFormat_mem)
qed

theorem transformer_order_and_guards_witness:
  "sorted_wrt (<) (map stage_position (transformer gravity_table example_options)) \<and>
   truthy (get example_options ''resize'') \<and> truthy (get example_options ''size'') \<and>
   (\<exists>rest. transformer gravity_table example_options =
      Resize (JNum 100) (JNum 100) JUndefined # rest) \<and>
   truthy (get example_options ''format'') \<and>
   (\<exists>args. last (transformer gravity_table example_options) = ToFormat args) \<and>
   Rotate (JNum 90) \<in> set (transformer gravity_table example_options) \<and>
   Embed \<notin> set (transformer gravity_table example_options)"
proof -
  have toggles: "truthy (get example_options ''resize'')" "truthy (get example_options ''size'')"
    "truthy (get example_options ''format'')"
    by code_simp+
  show ?thesis
    using transformer_order_and_guards [of gravity_table example_options] toggles
    by (simp add: example_pipeline)
qed

text \<open>
  The claim as it was stated fails at \<open>rotate: 0\<close>: the toggle is falsy and the stage is
  queued all the same.
\<close>

theorem rotate_zero_counterexample:
  "\<not> truthy (get (AList.merge defaultOptions [(''rotate'', JNum 0)]) ''rotate'') \<and>
   transformer gravity_table (AList.merge defaultOptions [(''rotate'', JNum 0)]) =
     [Rotate (JNum 0)]"
  by code_simp

subsection \<open>C5: the rotate whitelist\<close>

text \<open>
  Claim C5. When the rotate value is not one of 0, 90, 180 and 270, the pipeline holds
  no rotate stage and is the very pipeline compiled with the rotate option removed, so
  its length is unaffected; \<open>transformer\<close> is a total function and raises nothing. When
  the value is one of the four, a rotate stage with that angle is in the pipeline,
  which is one stage longer than without the option.
\<close>

theorem rotate_whitelist:
  "(get options ''rotate'' \<notin> {JNum 0, JNum 90, JNum 180, JNum 270} \<longrightarrow>
      (\<forall>v. Rotate v \<notin> set (transformer gravity options)) \<and>
      transformer gravity options = transformer gravity (AList.delete ''rotate'' options)) \<and>
   (get options ''rotate'' \<in> {JNum 0, JNum 90, JNum 180, JNum 270} \<longrightarrow>
      Rotate (get options ''rotate'') \<in> set (transformer gravity options) \<and>
      length (transformer gravity options) =
        Suc (length (transformer gravity (AList.delete ''rotate'' options))))"
proof (cases "get options ''rotate'' \<in> {JNum 0, JNum 90, JNum 180, JNum 270}")
  case True
  have "Rotate (get options ''rotate'') \<in> set (transformer gravity options)"
    using True by (simp add: Rotate_mem del: insert_iff)
  with True transformer_with_rotate [OF True, of gravity] show ?thesis
    by blast
next
  case False
  have "\<forall>v. Rotate v \<notin> set (transformer gravity options)"
    using False by (simp add: Rotate_mem del: insert_iff)
  with False transformer_without_rotate [OF False, of gravity] show ?thesis
    by blast
qed

theorem rotate_whitelist_witness:
  "get [(''rotate'', JNum 45), (''flip'', JBool True)] ''rotate'' \<notin>
     {JNum 0, JNum 90, JNum 180, JNum 270} \<and>
   get [(''rotate'', JStr ''90''), (''flip'', JBool True)] ''rotate'' \<notin>
     {JNum 0, JNum 90, JNum 180, JNum 270} \<and>
   transformer gravity_table [(''rotate'', JNum 45), (''flip'', JBool True)] = [Flip] \<and>
   transformer gravity_table [(''rotate'', JStr ''90''), (''flip'', JBool True)] = [Flip] \<and>
   get [(''rotate'', JNum 0), (''flip'', JBool True)] ''rotate'' \<in>
     {JNum 0, JNum 90, JNum 180, JNum 270} \<and>
   Rotate (JNum 0) \<in> set (transformer gravity_table [(''rotate'', JNum 0), (''flip'', JBool True)]) \<and>
   length (transformer gravity_table [(''rotate'', JNum 0), (''flip'', JBool True)]) = 2"
proof -
  have without: "transformer gravity_table [(''flip'', JBool True)] = [Flip]"
    by code_simp
  have angles: "get [(''rotate'', JNum 45), (''flip'', JBool True)] ''rotate'' = JNum 45"
    "get [(''rotate'', JStr ''90''), (''flip'', JBool True)] ''rotate'' = JStr ''90''"
    "get [(''rotate'', JNum 0), (''flip'', JBool True)] ''rotate'' = JNum 0"
    by (simp_all add: get_def)
  show ?thesis
    using rotate_whitelist [of "[(''rotate'', JNum 45), (''flip'', JBool True)]" gravity_table]
      rotate_whitelist [of "[(''rotate'', JStr ''90''), (''flip'', JBool True)]" gravity_table]
      rotate_whitelist [of "[(''rotate'', JNum 0), (''flip'', JBool True)]" gravity_table]
    by (simp add: without angles)
qed

subsection \<open>C6: resize needs both the toggle and a size\<close>

text \<open>
  Claim C6. The pipeline holds a resize stage if and only if the resize toggle is
  truthy and a size is present. With the defaults, where \<open>resize\<close> is \<open>true\<close>, and no
  \<open>size\<close> option, no resize stage is queued. When both are set, the resize stage is the
  first stage and carries the width, height and option of the size.
\<close>

theorem resize_guard:
  "((\<exists>w h p. Resize w h p \<in> set (transformer gravity options)) \<longleftrightarrow>
      truthy (get options ''resize'') \<and> truthy (get options ''size'')) \<and>
   (map_of user ''resize'' = None \<and> map_of user ''size'' = None \<longrightarrow>
      truthy (get (AList.merge defaultOptions user) ''resize'') \<and>
      (\<forall>w h p. Resize w h p \<notin> set (transformer gravity (AList.merge defaultOptions user)))) \<and>
   (truthy (get options ''resize'') \<and> truthy (get options ''size'') \<longrightarrow>
      (\<exists>rest. transformer gravity options =
         Resize (property (get options ''size'') ''width'')
           (property (get options ''size'') ''height'')
           (property (get options ''size'') ''option'') # rest))"
proof -
  have iff: "(\<exists>w h p. Resize w h p \<in> set (transformer gravity options)) \<longleftrightarrow>
      truthy (get options ''resize'') \<and> truthy (get options ''size'')"
    by (simp add: Resize_mem)
  have defaults: "map_of user ''resize'' = None \<and> map_of user ''size'' = None \<longrightarrow>
      truthy (get (AList.merge defaultOptions user) ''resize'') \<and>
      (\<forall>w h p. Resize w h p \<notin> set (transformer gravity (AList.merge defaultOptions user)))"
    by (simp add: Resize_mem get_merge) (simp add: get_def defaultOptions_def)
  have first: "truthy (get options ''resize'') \<and> truthy (get options ''size'') \<longrightarrow>
      (\<exists>rest. transformer gravity options =
         Resize (property (get options ''size'') ''width'')
           (property (get options ''size'') ''height'')
           (property (get options ''size'') ''option'') # rest)"
    using transformer_resize_first [of options gravity] by blast
  from iff defaults first show ?thesis by blast
qed

theorem resize_guard_witness:
  "map_of [(''bucket'', JStr ''b'')] ''resize'' = None \<and>
   map_of [(''bucket'', JStr ''b'')] ''size'' = None \<and>
   truthy (get (AList.merge defaultOptions [(''bucket'', JStr ''b'')]) ''resize'') \<and>
   (\<forall>w h p. Resize w h p \<notin>
      set (transformer gravity_table (AList.merge defaultOptions [(''bucket'', JStr ''b'')]))) \<and>
   truthy (get example_options ''resize'') \<and> truthy (get example_options ''size'') \<and>
   (\<exists>rest. transformer gravity_table example_options =
      Resize (JNum 100) (JNum 100) JUndefined # rest)"
proof -
  have toggles: "truthy (get example_options ''resize'')" "truthy (get example_options ''size'')"
    by code_simp+
  have absent: "map_of [(''bucket'', JStr ''b'')] ''resize'' = None"
    "map_of [(''bucket'', JStr ''b'')] ''size'' = None"
    by simp_all
  show ?thesis
    using resize_guard [of gravity_table example_options "[(''bucket'', JStr ''b'')]"]
      toggles absent
    by (simp add: example_pipeline)
qed

subsection \<open>C2 and C9: the object key\<close>

text \<open>
  Claim C2. For a destination string \<open>d\<close> and a file name \<open>f\<close> the object key is \<open>f\<close>
  when \<open>d\<close> is empty and \<open>d + '/' + f\<close> otherwise, on the upload path and on the removal
  path alike; for every destination value the removal path computes the key the
  upload path computes for the stored file name. So when the destination strategy
  gives the same destination on both paths and the stored descriptor carries the file
  name of the upload, the object that removal deletes is the object that upload
  opened.
\<close>

theorem object_key_rule:
  "handleFile_gcName (JStr d) (JStr f) = JStr (if d = [] then f else d @ ''/'' @ f) \<and>
   removeFile_gcName (JStr d) [(''filename'', JStr f)] =
     JStr (if d = [] then f else d @ ''/'' @ f) \<and>
   removeFile_gcName destination stored =
     handleFile_gcName destination (get stored ''filename'') \<and>
   (call_strategy w (this_getDestination this) req file = Inr (destErr, destination) \<and>
    call_strategy w (this_getFilename this) req file = Inr (fileErr, filename) \<and>
    getFormat (mime_lookup w) (get (this_options this) ''format'') = Inr fmt \<and>
    call_strategy w (this_getDestination this) req' stored = Inr (destErr', destination) \<and>
    get stored ''filename'' = filename \<longrightarrow>
      opened_files (fst (handleFile w this req file)) =
        [handleFile_gcName destination filename] \<and>
      deleted_files (fst (removeFile w this req' stored)) =
        [handleFile_gcName destination filename])"
proof -
  have same: "removeFile_gcName destination stored =
      handleFile_gcName destination (get stored ''filename'')"
    by (simp add: handleFile_gcName_def removeFile_gcName_def)
  have rule: "handleFile_gcName (JStr d) (JStr f) = JStr (if d = [] then f else d @ ''/'' @ f)"
    by (simp add: handleFile_gcName_def)
  have rule': "removeFile_gcName (JStr d) [(''filename'', JStr f)] =
      JStr (if d = [] then f else d @ ''/'' @ f)"
    by (simp add: removeFile_gcName_def get_def)
  { assume dest: "call_strategy w (this_getDestination this) req file =
        Inr (destErr, destination)"
      and name: "call_strategy w (this_getFilename this) req file = Inr (fileErr, filename)"
      and fmt: "getFormat (mime_lookup w) (get (this_options this) ''format'') = Inr fmt"
      and dest': "call_strategy w (this_getDestination this) req' stored =
        Inr (destErr', destination)"
      and stored: "get stored ''filename'' = filename"
    have "opened_files (fst (handleFile w this req file)) =
        [handleFile_gcName destination filename]"
      by (rule handleFile_opens [OF dest name fmt])
    moreover have "deleted_files (fst (removeFile w this req' stored)) =
        [handleFile_gcName destination filename]"
      using removeFile_deletes [OF dest'] same stored by simp
    ultimately have "opened_files (fst (handleFile w this req file)) =
        [handleFile_gcName destination filename] \<and>
      deleted_files (fst (removeFile w this req' stored)) =
        [handleFile_gcName destination filename]"
      by simp }
  then have paths: "call_strategy w (this_getDestination this) req file =
      Inr (destErr, destination) \<and>
    call_strategy w (this_getFilename this) req file = Inr (fileErr, filename) \<and>
    getFormat (mime_lookup w) (get (this_options this) ''format'') = Inr fmt \<and>
    call_strategy w (this_getDestination this) req' stored = Inr (destErr', destination) \<and>
    get stored ''filename'' = filename \<longrightarrow>
      opened_files (fst (handleFile w this req file)) =
        [handleFile_gcName destination filename] \<and>
      deleted_files (fst (removeFile w this req' stored)) =
        [handleFile_gcName destination filename]"
    by blast
  from rule rule' same paths show ?thesis
    by blast
qed

theorem object_key_rule_witness:
  "handleFile_gcName (JStr ''public/img'') (JStr ''a1b2'') = JStr ''public/img/a1b2'' \<and>
   removeFile_gcName (JStr ''public/img'') [(''filename'', JStr ''a1b2'')] =
     JStr ''public/img/a1b2'' \<and>
   handleFile_gcName (JStr []) (JStr ''a1b2'') = JStr ''a1b2'' \<and>
   removeFile_gcName (JStr []) [(''filename'', JStr ''a1b2'')] = JStr ''a1b2'' \<and>
   call_strategy example_world (this_getDestination example_engine) JNull example_file =
     Inr (JNull, JStr ''public/img'') \<and>
   call_strategy example_world (this_getFilename example_engine) JNull example_file =
     Inr (JNull, JStr ''000102030405060708090a0b0c0d0eff'') \<and>
   getFormat (mime_lookup example_world) (get (this_options example_engine) ''format'') =
     Inr (JStr ''image/jpeg'') \<and>
   call_strategy example_world (this_getDestination example_engine) JNull example_stored =
     Inr (JNull, JStr ''public/img'') \<and>
   get example_stored ''filename'' = JStr ''000102030405060708090a0b0c0d0eff'' \<and>
   opened_files (fst (handleFile example_world example_engine JNull example_file)) =
     [JStr ''public/img/000102030405060708090a0b0c0d0eff''] \<and>
   deleted_files (fst (removeFile example_world example_engine JNull example_stored)) =
     [JStr ''public/img/000102030405060708090a0b0c0d0eff'']"
proof -
  have dest: "call_strategy example_world (this_getDestination example_engine) JNull
      example_file = Inr (JNull, JStr ''public/img'')"
    by code_simp
  have name: "call_strategy example_world (this_getFilename example_engine) JNull
      example_file = Inr (JNull, JStr ''000102030405060708090a0b0c0d0eff'')"
    by code_simp
  have fmt: "getFormat (mime_lookup example_world) (get (this_options example_engine) ''format'')
      = Inr (JStr ''image/jpeg'')"
    by code_simp
  have dest': "call_strategy example_world (this_getDestination example_engine) JNull
      example_stored = Inr (JNull, JStr ''public/img'')"
    by code_simp
  have stored: "get example_stored ''filename'' = JStr ''000102030405060708090a0b0c0d0eff''"
    by code_simp
  have key: "handleFile_gcName (JStr ''public/img'') (JStr ''000102030405060708090a0b0c0d0eff'')
      = JStr ''public/img/000102030405060708090a0b0c0d0eff''"
    by code_simp
  have paths: "opened_files (fst (handleFile example_world example_engine JNull example_file)) =
      [JStr ''public/img/000102030405060708090a0b0c0d0eff''] \<and>
    deleted_files (fst (removeFile example_world example_engine JNull example_stored)) =
      [JStr ''public/img/000102030405060708090a0b0c0d0eff'']"
    using object_key_rule [THEN conjunct2, THEN conjunct2, THEN conjunct2, THEN mp,
        OF conjI [OF dest conjI [OF name conjI [OF fmt conjI [OF dest' stored]]]]]
    unfolding key by simp
  have keys: "handleFile_gcName (JStr ''public/img'') (JStr ''a1b2'') = JStr ''public/img/a1b2'' \<and>
    removeFile_gcName (JStr ''public/img'') [(''filename'', JStr ''a1b2'')] =
      JStr ''public/img/a1b2''"
    using object_key_rule [of "''public/img''" "''a1b2''", THEN conjunct1]
      object_key_rule [of "''public/img''" "''a1b2''", THEN conjunct2, THEN conjunct1]
    by simp
  have root: "handleFile_gcName (JStr []) (JStr ''a1b2'') = JStr ''a1b2'' \<and>
    removeFile_gcName (JStr []) [(''filename'', JStr ''a1b2'')] = JStr ''a1b2''"
    using object_key_rule [of "[]" "''a1b2''", THEN conjunct1]
      object_key_rule [of "[]" "''a1b2''", THEN conjunct2, THEN conjunct1]
    by simp
  from keys root dest name fmt dest' stored paths show ?thesis
    by blast
qed

text \<open>
  Claim C9. For a destination that is not a string, or is the empty string, both paths
  take the file name itself as the object key: no destination segment is written.
\<close>

theorem object_key_total:
  "typeof destination \<noteq> ''string'' \<or> destination = JStr [] \<Longrightarrow>
   handleFile_gcName destination filename = filename \<and>
   removeFile_gcName destination file = get file ''filename''"
  by (auto simp: handleFile_gcName_def removeFile_gcName_def)

theorem object_key_total_witness:
  "typeof JUndefined \<noteq> ''string'' \<and>
   handleFile_gcName JUndefined (JStr ''a1b2'') = JStr ''a1b2'' \<and>
   removeFile_gcName JUndefined [(''filename'', JStr ''a1b2'')] = JStr ''a1b2'' \<and>
   handleFile_gcName (JStr []) (JStr ''a1b2'') = JStr ''a1b2'' \<and>
   typeof (JNum 5) \<noteq> ''string'' \<and>
   handleFile_gcName (JNum 5) (JStr ''a1b2'') = JStr ''a1b2''"
  using object_key_total [of JUndefined "JStr ''a1b2''" "[(''filename'', JStr ''a1b2'')]"]
    object_key_total [of "JStr []" "JStr ''a1b2''" "[]"]
    object_key_total [of "JNum 5" "JStr ''a1b2''" "[]"]
  by (simp add: get_def)

subsection \<open>C3 and C8: validation at construction\<close>

text \<open>
  Claim C3. When the options lack \<open>bucket\<close>, \<open>projectId\<close> or \<open>keyFilename\<close>, the
  constructor throws an error, and it has made no call to the storage library: no
  storage client exists.
\<close>

theorem constructor_fails_fast:
  "map_of options ''bucket'' = None \<or> map_of options ''projectId'' = None \<or>
   map_of options ''keyFilename'' = None \<Longrightarrow>
   fst (constructor env options) = [] \<and>
   (\<exists>msg. snd (constructor env options) = Inl (Error msg))"
  by (auto simp: constructor_def get_def Let_def)

theorem constructor_fails_fast_witness:
  "map_of [(''bucket'', JStr ''b''), (''keyFilename'', JStr ''k'')] ''projectId'' = None \<and>
   constructor (\<lambda>k. None) [(''bucket'', JStr ''b''), (''keyFilename'', JStr ''k'')] =
     ([], Inl (Error ''You have to specify project id for Google Cloud Storage to work.''))"
  using constructor_fails_fast [of "[(''bucket'', JStr ''b''), (''keyFilename'', JStr ''k'')]"
      "\<lambda>k. None"]
  by (simp add: constructor_def get_def Let_def)

text \<open>
  Claim C8. The checks read the fields of the options, never the environment: a
  missing or falsy \<open>bucket\<close>, \<open>projectId\<close> or \<open>keyFilename\<close> makes the constructor throw
  whatever the environment holds. The outcome of the constructor does not depend on
  the environment at all: when it succeeds, the storage client is made from the
  values of the options.
\<close>

theorem validation_ignores_environment:
  "(\<not> truthy (get options ''bucket'') \<longrightarrow>
      constructor env options =
        ([], Inl (Error ''You have to specify bucket for Google Cloud Storage to work.''))) \<and>
   (truthy (get options ''bucket'') \<and> \<not> truthy (get options ''projectId'') \<longrightarrow>
      constructor env options =
        ([], Inl (Error ''You have to specify project id for Google Cloud Storage to work.''))) \<and>
   (truthy (get options ''bucket'') \<and> truthy (get options ''projectId'') \<and>
    \<not> truthy (get options ''keyFilename'') \<longrightarrow>
      constructor env options =
        ([], Inl (Error
           ''You have to specify credentials key file for Google Cloud Storage to work.''))) \<and>
   (truthy (get options ''bucket'') \<and> truthy (get options ''projectId'') \<and>
    truthy (get options ''keyFilename'') \<longrightarrow>
      fst (constructor env options) =
        [Gcloud (get options ''projectId'') (get options ''keyFilename''),
         Bucket (get options ''bucket'')]) \<and>
   constructor env options = constructor env' options"
  by (simp add: constructor_def Let_def js_or_def)

theorem validation_ignores_environment_witness:
  "\<not> truthy (get [(''bucket'', JStr []), (''projectId'', JStr ''p''), (''keyFilename'', JStr ''k'')]
       ''bucket'') \<and>
   constructor (map_of [(''GCS_BUCKET'', ''b''), (''GCLOUD_PROJECT'', ''p''), (''GCS_KEYFILE'', ''k'')])
     [(''bucket'', JStr []), (''projectId'', JStr ''p''), (''keyFilename'', JStr ''k'')] =
     ([], Inl (Error ''You have to specify bucket for Google Cloud Storage to work.'')) \<and>
   truthy (get [(''bucket'', JStr ''b'')] ''bucket'') \<and>
   \<not> truthy (get [(''bucket'', JStr ''b'')] ''projectId'') \<and>
   constructor (map_of [(''GCS_BUCKET'', ''b''), (''GCLOUD_PROJECT'', ''p''), (''GCS_KEYFILE'', ''k'')])
     [(''bucket'', JStr ''b'')] =
     ([], Inl (Error ''You have to specify project id for Google Cloud Storage to work.''))"
  using validation_ignores_environment
      [of "[(''bucket'', JStr []), (''projectId'', JStr ''p''), (''keyFilename'', JStr ''k'')]"
          "map_of [(''GCS_BUCKET'', ''b''), (''GCLOUD_PROJECT'', ''p''), (''GCS_KEYFILE'', ''k'')]"]
    validation_ignores_environment
      [of "[(''bucket'', JStr ''b'')]"
          "map_of [(''GCS_BUCKET'', ''b''), (''GCLOUD_PROJECT'', ''p''), (''GCS_KEYFILE'', ''k'')]"]
  by (simp add: get_def)

subsection \<open>C7: the result of a successful upload\<close>

text \<open>
  Claim C7, as amended. When both naming strategies report no error, the content type
  is computed and the write stream finishes, the callback is invoked once, with no
  error and the result \<open>{mimetype, path, filename}\<close>. The mimetype, which is also the
  content type of the write stream, is the MIME lookup of the configured format when
  that lookup is truthy and the MIME type of the inbound file otherwise. The path is
  the URI encoding of \<open>https://storage.googleapis.com/\<close>, the bucket, a slash and the
  object key; for a destination string and a file name the key is the file name alone
  exactly when the destination is empty.
\<close>

theorem upload_result:
  assumes dest: "call_strategy w (this_getDestination this) req file = Inr (destErr, destination)"
      and dest_ok: "\<not> truthy destErr"
      and name: "call_strategy w (this_getFilename this) req file = Inr (fileErr, filename)"
      and name_ok: "\<not> truthy fileErr"
      and fmt: "getFormat (mime_lookup w) (get (this_options this) ''format'') = Inr looked_up"
      and finish: "filter (\<lambda>ev. \<not> is_info ev) (stream_events w) = [Finish]"
  shows "snd (handleFile w this req file) = None \<and>
     write_streams (fst (handleFile w this req file)) =
       [(handleFile_gcName destination filename, get (this_options this) ''acl'',
         if truthy looked_up then looked_up else get file ''mimetype'')] \<and>
     callbacks (fst (handleFile w this req file)) =
       [[JNull, JObj
          [(''mimetype'', if truthy looked_up then looked_up else get file ''mimetype''),
           (''path'', JStr (encodeURI (''https://storage.googleapis.com/'' @
               to_string (get (this_options this) ''bucket'') @ ''/'' @
               to_string (handleFile_gcName destination filename)))),
           (''filename'', filename)]]] \<and>
     to_string (handleFile_gcName (JStr d) (JStr f)) = (if d = [] then f else d @ ''/'' @ f)"
proof -
  note run = handleFile_run [OF dest name fmt]
  have ct: "js_or looked_up (get file ''mimetype'') =
      (if truthy looked_up then looked_up else get file ''mimetype'')"
    by (simp add: js_or_def)
  have 1: "snd (handleFile w this req file) = None"
    by (simp add: run)
  have 2: "write_streams (fst (handleFile w this req file)) =
       [(handleFile_gcName destination filename, get (this_options this) ''acl'',
         if truthy looked_up then looked_up else get file ''mimetype'')]"
    unfolding run fst_conv ct using dest_ok name_ok
    by (simp add: write_streams_append write_streams_Cons write_streams_Nil write_streams_events)
  have 3: "callbacks (fst (handleFile w this req file)) =
       [[JNull, JObj
          [(''mimetype'', if truthy looked_up then looked_up else get file ''mimetype''),
           (''path'', JStr (encodeURI (''https://storage.googleapis.com/'' @
               to_string (get (this_options this) ''bucket'') @ ''/'' @
               to_string (handleFile_gcName destination filename)))),
           (''filename'', filename)]]]"
    unfolding run fst_conv ct using dest_ok name_ok
    by (simp add: callbacks_append callbacks_Cons callbacks_Nil callbacks_finish_events [OF finish])
  have 4: "to_string (handleFile_gcName (JStr d) (JStr f)) = (if d = [] then f else d @ ''/'' @ f)"
    by (simp add: handleFile_gcName_def)
  from 1 2 3 4 show ?thesis by blast
qed


theorem upload_result_witness:
  "snd (constructor (\<lambda>k. None) example_config) = Inr example_engine \<and>
   call_strategy example_world (this_getDestination example_engine) JNull example_file =
     Inr (JNull, JStr ''public/img'') \<and>
   call_strategy example_world (this_getFilename example_engine) JNull example_file =
     Inr (JNull, JStr ''000102030405060708090a0b0c0d0eff'') \<and>
   getFormat (mime_lookup example_world) (get (this_options example_engine) ''format'') =
     Inr (JStr ''image/jpeg'') \<and>
   filter (\<lambda>ev. \<not> is_info ev) (stream_events example_world) = [Finish] \<and>
   write_streams (fst (handleFile example_world example_engine JNull example_file)) =
     [(JStr ''public/img/000102030405060708090a0b0c0d0eff'', JStr ''private'',
       JStr ''image/jpeg'')] \<and>
   callbacks (fst (handleFile example_world example_engine JNull example_file)) =
     [[JNull, JObj
        [(''mimetype'', JStr ''image/jpeg''),
         (''path'', JStr
            ''https://storage.googleapis.com/b/public/img/000102030405060708090a0b0c0d0eff''),
         (''filename'', JStr ''000102030405060708090a0b0c0d0eff'')]]]"
proof -
  have made: "snd (constructor (\<lambda>k. None) example_config) = Inr example_engine"
    by code_simp
  have dest: "call_strategy example_world (this_getDestination example_engine) JNull
      example_file = Inr (JNull, JStr ''public/img'')"
    by code_simp
  have name: "call_strategy example_world (this_getFilename example_engine) JNull
      example_file = Inr (JNull, JStr ''000102030405060708090a0b0c0d0eff'')"
    by code_simp
  have fmt: "getFormat (mime_lookup example_world) (get (this_options example_engine) ''format'')
      = Inr (JStr ''image/jpeg'')"
    by code_simp
  have finish: "filter (\<lambda>ev. \<not> is_info ev) (stream_events example_world) = [Finish]"
    by code_simp
  have key: "handleFile_gcName (JStr ''public/img'') (JStr ''000102030405060708090a0b0c0d0eff'')
      = JStr ''public/img/000102030405060708090a0b0c0d0eff''"
    by code_simp
  have acl: "get (this_options example_engine) ''acl'' = JStr ''private''"
    by code_simp
  have uri: "encodeURI (''https://storage.googleapis.com/'' @
      to_string (get (this_options example_engine) ''bucket'') @ ''/'' @
      to_string (JStr ''public/img/000102030405060708090a0b0c0d0eff'')) =
      ''https://storage.googleapis.com/b/public/img/000102030405060708090a0b0c0d0eff''"
    by code_simp
  have no_error: "\<not> truthy JNull"
    by simp
  from upload_result [OF dest no_error name no_error fmt finish]
  have "write_streams (fst (handleFile example_world example_engine JNull example_file)) =
     [(JStr ''public/img/000102030405060708090a0b0c0d0eff'', JStr ''private'',
       JStr ''image/jpeg'')]"
    and "callbacks (fst (handleFile example_world example_engine JNull example_file)) =
     [[JNull, JObj
        [(''mimetype'', JStr ''image/jpeg''),
         (''path'', JStr
            ''https://storage.googleapis.com/b/public/img/000102030405060708090a0b0c0d0eff''),
         (''filename'', JStr ''000102030405060708090a0b0c0d0eff'')]]]"
    unfolding key acl uri by simp_all
  with made dest name fmt finish show ?thesis
    by blast
qed

text \<open>
  The claim as it was stated fails when a format is configured whose MIME lookup gives
  nothing: the string \<open>magick\<close> of the formats the README lists, or a format object
  of the image library such as \<open>sharp.format.jpeg\<close>, an object with an \<open>id\<close> and no
  \<open>type\<close>. The lookup of the configured format is \<open>false\<close>, and both the content type
  of the write stream and the mimetype of the result are the MIME type of the
  inbound file.
\<close>

theorem configured_format_counterexample:
  "truthy (get (this_options (engine_with_format (JStr ''magick''))) ''format'') \<and>
   getFormat (mime_lookup example_world)
     (get (this_options (engine_with_format (JStr ''magick''))) ''format'') =
     Inr (JBool False) \<and>
   handleFile example_world (engine_with_format (JStr ''magick'')) JNull example_file =
     ([BucketFile (JStr ''000102030405060708090a0b0c0d0eff''),
       Pipe [ToFormat [JStr ''magick'']],
       CreateWriteStream (JStr ''000102030405060708090a0b0c0d0eff'') (JStr ''private'')
         (JStr ''image/png''),
       ConsoleInfo (JObj [(''size'', JNum 5120)]),
       ConsoleInfo (JObj [(''size'', JNum 5120)]),
       Callback [JNull, JObj
         [(''mimetype'', JStr ''image/png''),
          (''path'', JStr
             ''https://storage.googleapis.com/b/000102030405060708090a0b0c0d0eff''),
          (''filename'', JStr ''000102030405060708090a0b0c0d0eff'')]]],
      None) \<and>
   truthy (get (this_options (engine_with_format (JObj [(''id'', JStr ''jpeg'')]))) ''format'') \<and>
   getFormat (mime_lookup example_world)
     (get (this_options (engine_with_format (JObj [(''id'', JStr ''jpeg'')]))) ''format'') =
     Inr (JBool False) \<and>
   handleFile example_world (engine_with_format (JObj [(''id'', JStr ''jpeg'')])) JNull
     example_file =
     ([BucketFile (JStr ''000102030405060708090a0b0c0d0eff''),
       Pipe [ToFormat [JObj [(''id'', JStr ''jpeg'')]]],
       CreateWriteStream (JStr ''000102030405060708090a0b0c0d0eff'') (JStr ''private'')
         (JStr ''image/png''),
       ConsoleInfo (JObj [(''size'', JNum 5120)]),
       ConsoleInfo (JObj [(''size'', JNum 5120)]),
       Callback [JNull, JObj
         [(''mimetype'', JStr ''image/png''),
          (''path'', JStr
             ''https://storage.googleapis.com/b/000102030405060708090a0b0c0d0eff''),
          (''filename'', JStr ''000102030405060708090a0b0c0d0eff'')]]],
      None)"
  by code_simp

subsection \<open>C10: a format object with a type and no option\<close>

text \<open>
  Claim C10, as amended. For a format given as an object that has a \<open>type\<close> property
  and no \<open>option\<close> property, \<open>getFormat\<close> returns the MIME lookup of \<open>format.type\<close>: the
  lookup needs \<open>type\<close> only. The content type of the write stream and the mimetype of
  the result are that lookup whenever it is truthy, and the MIME type of the inbound
  file when it is not. The output-format stage of the pipeline is the one-argument
  call on the whole object, not the call on type and option.
\<close>

theorem format_type_without_option:
  assumes fmt: "get (this_options this) ''format'' = JObj fmt"
      and ty: "map_of fmt ''type'' = Some ty"
      and no_option: "map_of fmt ''option'' = None"
      and dest: "call_strategy w (this_getDestination this) req file = Inr (destErr, destination)"
      and name: "call_strategy w (this_getFilename this) req file = Inr (fileErr, filename)"
  shows "getFormat (mime_lookup w) (JObj fmt) = Inr (mime_lookup w ty) \<and>
     write_streams (fst (handleFile w this req file)) =
       [(handleFile_gcName destination filename, get (this_options this) ''acl'',
         if truthy (mime_lookup w ty) then mime_lookup w ty else get file ''mimetype'')] \<and>
     (Finish \<in> set (stream_events w) \<longrightarrow>
        [JNull, JObj
          [(''mimetype'',
            if truthy (mime_lookup w ty) then mime_lookup w ty else get file ''mimetype''),
           (''path'', JStr (encodeURI (''https://storage.googleapis.com/'' @
               to_string (get (this_options this) ''bucket'') @ ''/'' @
               to_string (handleFile_gcName destination filename)))),
           (''filename'', filename)]]
          \<in> set (callbacks (fst (handleFile w this req file)))) \<and>
     pipes (fst (handleFile w this req file)) =
       [transformer (sharp_gravity w) (this_options this)] \<and>
     (\<forall>args. ToFormat args \<in> set (transformer (sharp_gravity w) (this_options this)) \<longleftrightarrow>
        args = [JObj fmt])"
proof -
  have looked: "getFormat (mime_lookup w) (JObj fmt) = Inr (mime_lookup w ty)"
    using ty by (simp add: getFormat_def get_def)
  then have looked': "getFormat (mime_lookup w) (get (this_options this) ''format'') =
      Inr (mime_lookup w ty)"
    by (simp add: fmt)
  note run = handleFile_run [OF dest name looked']
  have ct: "js_or (mime_lookup w ty) (get file ''mimetype'') =
      (if truthy (mime_lookup w ty) then mime_lookup w ty else get file ''mimetype'')"
    by (simp add: js_or_def)
  have streams: "write_streams (fst (handleFile w this req file)) =
       [(handleFile_gcName destination filename, get (this_options this) ''acl'',
         if truthy (mime_lookup w ty) then mime_lookup w ty else get file ''mimetype'')]"
    unfolding run fst_conv ct
    by (simp add: write_streams_append write_streams_Cons write_streams_Nil write_streams_events)
  have result: "Finish \<in> set (stream_events w) \<longrightarrow>
        [JNull, JObj
          [(''mimetype'',
            if truthy (mime_lookup w ty) then mime_lookup w ty else get file ''mimetype''),
           (''path'', JStr (encodeURI (''https://storage.googleapis.com/'' @
               to_string (get (this_options this) ''bucket'') @ ''/'' @
               to_string (handleFile_gcName destination filename)))),
           (''filename'', filename)]]
          \<in> set (callbacks (fst (handleFile w this req file)))"
    unfolding run fst_conv ct set_callbacks
    using finish_calls_back [of "stream_events w"]
    by simp
  have piped: "pipes (fst (handleFile w this req file)) =
       [transformer (sharp_gravity w) (this_options this)]"
    unfolding run fst_conv
    by (simp add: pipes_append pipes_Cons pipes_Nil pipes_events)
  have stage: "\<forall>args. ToFormat args \<in> set (transformer (sharp_gravity w) (this_options this))
      \<longleftrightarrow> args = [JObj fmt]"
    using ty no_option by (simp add: ToFormat_mem fmt)
  from looked streams result piped stage show ?thesis
    by blast
qed

theorem format_type_without_option_witness:
  "get (this_options (engine_with_format (JObj [(''type'', JStr ''webp'')]))) ''format'' =
     JObj [(''type'', JStr ''webp'')] \<and>
   map_of [(''type'', JStr ''webp'')] ''type'' = Some (JStr ''webp'') \<and>
   map_of [(''type'', JStr ''webp'')] ''option'' = None \<and>
   Finish \<in> set (stream_events example_world) \<and>
   getFormat (mime_lookup example_world) (JObj [(''type'', JStr ''webp'')]) =
     Inr (JStr ''image/webp'') \<and>
   write_streams (fst (handleFile example_world
       (engine_with_format (JObj [(''type'', JStr ''webp'')])) JNull example_file)) =
     [(JStr ''000102030405060708090a0b0c0d0eff'', JStr ''private'', JStr ''image/webp'')] \<and>
   ToFormat [JObj [(''type'', JStr ''webp'')]] \<in>
     set (transformer (sharp_gravity example_world)
            (this_options (engine_with_format (JObj [(''type'', JStr ''webp'')]))))"
proof -
  let ?e = "engine_with_format (JObj [(''type'', JStr ''webp'')])"
  have fmt: "get (this_options ?e) ''format'' = JObj [(''type'', JStr ''webp'')]"
    by code_simp
  have ty: "map_of [(''type'', JStr ''webp'')] ''type'' = Some (JStr ''webp'')"
    and no_option: "map_of [(''type'', JStr ''webp'')] ''option'' = None"
    by simp_all
  have dest: "call_strategy example_world (this_getDestination ?e) JNull example_file =
      Inr (JNull, JStr [])"
    by code_simp
  have name: "call_strategy example_world (this_getFilename ?e) JNull example_file =
      Inr (JNull, JStr ''000102030405060708090a0b0c0d0eff'')"
    by code_simp
  have finish: "Finish \<in> set (stream_events example_world)"
    by code_simp
  have looked: "mime_lookup example_world (JStr ''webp'') = JStr ''image/webp''"
    by code_simp
  have key: "handleFile_gcName (JStr []) (JStr ''000102030405060708090a0b0c0d0eff'') =
      JStr ''000102030405060708090a0b0c0d0eff''"
    by code_simp
  have acl: "get (this_options ?e) ''acl'' = JStr ''private''"
    by code_simp
  from format_type_without_option [OF fmt ty no_option dest name]
  have "getFormat (mime_lookup example_world) (JObj [(''type'', JStr ''webp'')]) =
      Inr (JStr ''image/webp'')"
    and "write_streams (fst (handleFile example_world ?e JNull example_file)) =
      [(JStr ''000102030405060708090a0b0c0d0eff'', JStr ''private'', JStr ''image/webp'')]"
    and "ToFormat [JObj [(''type'', JStr ''webp'')]] \<in>
      set (transformer (sharp_gravity example_world) (this_options ?e))"
    unfolding looked key acl by simp_all
  with fmt ty no_option finish show ?thesis
    by blast
qed

text \<open>
  The claim as it was stated fails for a type that has no MIME type, such as
  \<open>magick\<close> of the formats the README lists: the lookup of \<open>format.type\<close> is \<open>false\<close>
  and the stored content type is the MIME type of the inbound file.
\<close>

theorem format_type_counterexample:
  "map_of [(''type'', JStr ''magick'')] ''type'' = Some (JStr ''magick'') \<and>
   map_of [(''type'', JStr ''magick'')] ''option'' = None \<and>
   mime_lookup example_world (JStr ''magick'') = JBool False \<and>
   write_streams (fst (handleFile example_world
       (engine_with_format (JObj [(''type'', JStr ''magick'')])) JNull example_file)) =
     [(JStr ''000102030405060708090a0b0c0d0eff'', JStr ''private'', JStr ''image/png'')] \<and>
   callbacks (fst (handleFile example_world
       (engine_with_format (JObj [(''type'', JStr ''magick'')])) JNull example_file)) =
     [[JNull, JObj
        [(''mimetype'', JStr ''image/png''),
         (''path'', JStr ''https://storage.googleapis.com/b/000102030405060708090a0b0c0d0eff''),
         (''filename'', JStr ''000102030405060708090a0b0c0d0eff'')]]]"
  by code_simp

subsection \<open>C1: one invocation of the callback\<close>

text \<open>
  Claim C1: an upload invokes the completion callback exactly once, the first error
  being the sole invocation, and an error of the destination or of the file name
  aborts the upload before a stream is opened. The code does otherwise when the
  destination strategy reports an error. Line 48 invokes the callback with the error
  and does not return: the file name is resolved, the write stream is opened, and when
  it finishes the callback is invoked a second time, with a result.
\<close>

theorem destination_error_calls_back_twice:
  "snd (constructor (\<lambda>k. None) failing_destination_config) = Inr failing_destination_engine \<and>
   call_strategy example_world (this_getDestination failing_destination_engine) JNull
     example_file = Inr (JObj [(''message'', JStr ''no destination'')], JUndefined) \<and>
   handleFile example_world failing_destination_engine JNull example_file =
     ([Callback [JObj [(''message'', JStr ''no destination'')]],
       BucketFile (JStr ''000102030405060708090a0b0c0d0eff''),
       Pipe [],
       CreateWriteStream (JStr ''000102030405060708090a0b0c0d0eff'') (JStr ''private'')
         (JStr ''image/png''),
       ConsoleInfo (JObj [(''size'', JNum 5120)]),
       ConsoleInfo (JObj [(''size'', JNum 5120)]),
       Callback [JNull, JObj
         [(''mimetype'', JStr ''image/png''),
          (''path'', JStr
             ''https://storage.googleapis.com/b/000102030405060708090a0b0c0d0eff''),
          (''filename'', JStr ''000102030405060708090a0b0c0d0eff'')]]],
      None) \<and>
   length (callbacks (fst (handleFile example_world failing_destination_engine JNull
     example_file))) = 2"
  by code_simp

end
